theory Spec2Isabelle
  imports Main "HOL-Library.Word"
begin

section \<open>Errors, panics and the status vocabulary\<close>

text \<open>
  \<^verbatim>\<open>common.MachineStatusError\<close> is a Go string type; its constants are the strings of
  \<^verbatim>\<open>pkg/apis/cluster/common/consts.go\<close>.
\<close>

type_synonym MachineStatusError = string

definition InvalidConfigurationMachineError :: MachineStatusError where
  "InvalidConfigurationMachineError = ''InvalidConfiguration''"

definition UnsupportedChangeMachineError :: MachineStatusError where
  "UnsupportedChangeMachineError = ''UnsupportedChange''"

definition InsufficientResourcesMachineError :: MachineStatusError where
  "InsufficientResourcesMachineError = ''InsufficientResources''"

definition CreateMachineError :: MachineStatusError where
  "CreateMachineError = ''CreateError''"

definition UpdateMachineError :: MachineStatusError where
  "UpdateMachineError = ''UpdateError''"

definition DeleteMachineError :: MachineStatusError where
  "DeleteMachineError = ''DeleteError''"

definition JoinClusterTimeoutMachineError :: MachineStatusError where
  "JoinClusterTimeoutMachineError = ''JoinClusterTimeoutError''"

text \<open>
  \<^verbatim>\<open>providerconfigtypes.OperatingSystem\<close>: the operating systems the tables of the source
  name, and any other.
\<close>

datatype OperatingSystem =
    OperatingSystemCentOS | OperatingSystemUbuntu | OperatingSystemRHEL
  | OperatingSystemFlatcar | OperatingSystemRockyLinux | OperatingSystemOther string

text \<open>
  Go errors. A message built by \<^verbatim>\<open>fmt.Errorf\<close> or \<^verbatim>\<open>fmt.Sprintf\<close> is kept as the format
  string of the source together with its arguments, so no rendering of \<^verbatim>\<open>%q\<close> or
  \<^verbatim>\<open>%v\<close> has to be invented; \<^verbatim>\<open>errors.New(s)\<close> is \<open>Errorf s []\<close>. \<open>SDKError\<close> is an
  error produced by a remote service or a decoder, of which only a text is known.
  \<open>ErrInstanceNotFound\<close> is the sentinel of \<^verbatim>\<open>cloudprovidererrors\<close>, compared by
  identity in the source. An argument is a string, an error, a number, a \<^verbatim>\<open>nil\<close> error,
  a string pointer or an operating system.
\<close>

datatype error =
    TerminalError (Reason: MachineStatusError) (Message: fmt)
  | ErrInstanceNotFound
  | Errorf string "arg list"
  | SDKError string
and fmt = Sprintf string "arg list"
and arg = AStr string | AErr error | ANum nat | ANil | AStrPtr "string option" | AOS OperatingSystem

text \<open>A call either returns or panics (a Go runtime panic unwinds through every caller).\<close>

datatype 'a go = Return 'a | Panic

text \<open>\<^verbatim>\<open>instance.Status\<close>: the four values the source uses.\<close>

datatype Status = StatusUnknown | StatusCreating | StatusRunning | StatusDeleting

datatype NodeAddressType = NodeInternalIP | NodeExternalIP

datatype IPFamily = Unspecified | IPv4 | IPv6 | DualStack | UnknownIPFamily string

datatype IPVersion = IPVersionIPv4 | IPVersionIPv6

datatype PublicIPAddressSkuName = PublicIPAddressSkuNameBasic | PublicIPAddressSkuNameStandard

datatype IPAllocationMethod = IPAllocationMethodStatic | IPAllocationMethodDynamic

text \<open>
  Sequencing of a fallible value: the \<^verbatim>\<open>if err != nil { return nil, wrap(err) }\<close> idiom.
\<close>

definition unless_err :: "error + 'a \<Rightarrow> (error \<Rightarrow> error) \<Rightarrow> ('a \<Rightarrow> error + 'b) \<Rightarrow> error + 'b" where
  "unless_err r wrap k = (case r of Inl err \<Rightarrow> Inl (wrap err) | Inr v \<Rightarrow> k v)"

section \<open>Constants of the provider\<close>

definition machineUIDTag :: string where
  "machineUIDTag = ''Machine-UID''"

definition finalizerPublicIP :: string where
  "finalizerPublicIP = ''kubermatic.io/cleanup-azure-public-ip''"

definition finalizerPublicIPv6 :: string where
  "finalizerPublicIPv6 = ''kubermatic.io/cleanup-azure-public-ipv6''"

definition finalizerNIC :: string where
  "finalizerNIC = ''kubermatic.io/cleanup-azure-nic''"

definition finalizerDisks :: string where
  "finalizerDisks = ''kubermatic.io/cleanup-azure-disks''"

definition finalizerVM :: string where
  "finalizerVM = ''kubermatic.io/cleanup-azure-vm''"

definition envClientID :: string where
  "envClientID = ''AZURE_CLIENT_ID''"

definition envClientSecret :: string where
  "envClientSecret = ''AZURE_CLIENT_SECRET''"

definition envTenantID :: string where
  "envTenantID = ''AZURE_TENANT_ID''"

definition envSubscriptionID :: string where
  "envSubscriptionID = ''AZURE_SUBSCRIPTION_ID''"

section \<open>Configuration\<close>

text \<open>
  Modelled from the spec: \<^verbatim>\<open>providerconfigtypes.ConfigVarString\<close> and \<^verbatim>\<open>ConfigVarBool\<close>
  (package \<^verbatim>\<open>pkg/providerconfig/types\<close>, not among the source files). The spec: "a
  configuration value is one of: literal, secret reference, or environment-variable
  name". A value carries its inline literal and, optionally, a reference to a secret;
  the environment variable name is given by the caller.
\<close>

record ConfigVarString =
  cvs_Value :: string
  cvs_SecretKeyRef :: "string option"

record ConfigVarBool =
  cvb_Value :: "bool option"
  cvb_SecretKeyRef :: "string option"

record ImagePlan =
  ip_Name :: string
  ip_Publisher :: string
  ip_Product :: string

record RawImageReference =
  rir_Publisher :: string
  rir_Offer :: string
  rir_Sku :: string
  rir_Version :: string

text \<open>
  \<^verbatim>\<open>azuretypes.RawConfig\<close>: the fields that \<^verbatim>\<open>getConfig\<close> reads, with the types it reads
  them at.
\<close>

record RawConfig =
  raw_SubscriptionID :: ConfigVarString
  raw_TenantID :: ConfigVarString
  raw_ClientID :: ConfigVarString
  raw_ClientSecret :: ConfigVarString
  raw_Location :: ConfigVarString
  raw_ResourceGroup :: ConfigVarString
  raw_VNetResourceGroup :: ConfigVarString
  raw_VMSize :: ConfigVarString
  raw_VNetName :: ConfigVarString
  raw_SubnetName :: ConfigVarString
  raw_LoadBalancerSku :: ConfigVarString
  raw_RouteTableName :: ConfigVarString
  raw_AvailabilitySet :: ConfigVarString
  raw_AssignAvailabilitySet :: "bool option"
  raw_SecurityGroupName :: ConfigVarString
  raw_Zones :: "string list"
  raw_ImagePlan :: "ImagePlan option"
  raw_ImageReference :: "RawImageReference option"
  raw_ImageID :: ConfigVarString
  raw_OSDiskSize :: "32 word"
  raw_OSDiskSKU :: "string option"
  raw_DataDiskSize :: "32 word"
  raw_DataDiskSKU :: "string option"
  raw_AssignPublicIP :: ConfigVarBool
  raw_Tags :: "string \<rightharpoonup> string"

text \<open>
  \<^verbatim>\<open>providerconfigtypes.Config\<close> and \<^verbatim>\<open>clusterv1alpha1.ProviderSpec\<close>. The raw JSON of a
  provider spec is represented by what the strict decoders (\<^verbatim>\<open>providerconfigtypes.GetConfig\<close>,
  \<^verbatim>\<open>azuretypes.GetConfig\<close>, both outside the source files) make of it: an error or the
  decoded value. \<open>Network_IPFamily\<close> is the value of \<^verbatim>\<open>Network.GetIPFamily()\<close>.
\<close>

record Config =
  OperatingSystem :: OperatingSystem
  OperatingSystemSpec_Raw :: "string option"
  CloudProviderSpec :: "error + RawConfig"
  Network_IPFamily :: IPFamily

record ProviderSpec =
  Value :: "(error + Config) option"

definition providerconfigtypes_GetConfig :: "error + Config \<Rightarrow> error + Config" where
  "providerconfigtypes_GetConfig raw = raw"

definition azuretypes_GetConfig :: "Config \<Rightarrow> error + RawConfig" where
  "azuretypes_GetConfig pconfig = CloudProviderSpec pconfig"

record Plan =
  plan_Name :: "string option"
  plan_Publisher :: "string option"
  plan_Product :: "string option"

record ImageReference =
  ir_Publisher :: "string option"
  ir_Offer :: "string option"
  ir_Sku :: "string option"
  ir_Version :: "string option"
  ir_ID :: "string option"

record config =
  SubscriptionID :: string
  TenantID :: string
  ClientID :: string
  ClientSecret :: string
  Location :: string
  ResourceGroup :: string
  VNetResourceGroup :: string
  VMSize :: string
  VNetName :: string
  SubnetName :: string
  LoadBalancerSku :: string
  RouteTableName :: string
  AvailabilitySet :: string
  AssignAvailabilitySet :: "bool option"
  SecurityGroupName :: string
  ImageID :: string
  Zones :: "string list"
  ImagePlan :: "Plan option"
  ImageReference :: "ImageReference option"
  OSDiskSize :: "32 word"
  OSDiskSKU :: "string option"
  DataDiskSize :: "32 word"
  DataDiskSKU :: "string option"
  AssignPublicIP :: bool
  Tags :: "string \<rightharpoonup> string"

text \<open>
  \<^verbatim>\<open>providerconfig.ConfigVarResolver\<close> is outside the source files; \<^verbatim>\<open>getConfig\<close> takes it
  as a parameter, a record of the three methods it calls.
\<close>

record ConfigVarResolver =
  GetConfigVarStringValue :: "ConfigVarString \<Rightarrow> error + string"
  GetConfigVarStringValueOrEnv :: "ConfigVarString \<Rightarrow> string \<Rightarrow> error + string"
  GetConfigVarBoolValue :: "ConfigVarBool \<Rightarrow> error + (bool \<times> bool)"

record provider =
  configVarResolver :: ConfigVarResolver

definition storageTypePtr :: "string \<Rightarrow> string option" where
  "storageTypePtr storageType = Some storageType"

definition getConfig :: "provider \<Rightarrow> ProviderSpec \<Rightarrow> error + (config \<times> Config)" where
  \<open>getConfig p provSpec =
    (case Value provSpec of
       None \<Rightarrow> Inl (Errorf ''machine.spec.providerconfig.value is nil'' [])
     | Some raw \<Rightarrow>
    unless_err (providerconfigtypes_GetConfig raw) id (\<lambda>pconfig.
    (case OperatingSystemSpec_Raw pconfig of
       None \<Rightarrow> Inl (Errorf ''operatingSystemSpec in the MachineDeployment cannot be empty'' [])
     | Some _ \<Rightarrow>
    unless_err (azuretypes_GetConfig pconfig) id (\<lambda>rawCfg.
    unless_err (GetConfigVarStringValueOrEnv (configVarResolver p) (raw_SubscriptionID rawCfg) envSubscriptionID)
      (\<lambda>err. Errorf ''failed to get the value of "subscriptionID" field, error = %v'' [AErr err]) (\<lambda>subscriptionID.
    unless_err (GetConfigVarStringValueOrEnv (configVarResolver p) (raw_TenantID rawCfg) envTenantID)
      (\<lambda>err. Errorf ''failed to get the value of "tenantID" field, error = %v'' [AErr err]) (\<lambda>tenantID.
    unless_err (GetConfigVarStringValueOrEnv (configVarResolver p) (raw_ClientID rawCfg) envClientID)
      (\<lambda>err. Errorf ''failed to get the value of "clientID" field, error = %v'' [AErr err]) (\<lambda>clientID.
    unless_err (GetConfigVarStringValueOrEnv (configVarResolver p) (raw_ClientSecret rawCfg) envClientSecret)
      (\<lambda>err. Errorf ''failed to get the value of "clientSecret" field, error = %v'' [AErr err]) (\<lambda>clientSecret.
    unless_err (GetConfigVarStringValue (configVarResolver p) (raw_ResourceGroup rawCfg))
      (\<lambda>err. Errorf ''failed to get the value of "resourceGroup" field, error = %v'' [AErr err]) (\<lambda>resourceGroup.
    unless_err (GetConfigVarStringValue (configVarResolver p) (raw_VNetResourceGroup rawCfg))
      (\<lambda>err. Errorf ''failed to get the value of "vnetResourceGroup" field, error = %v'' [AErr err]) (\<lambda>vnetResourceGroup0.
    (let vnetResourceGroup = (if vnetResourceGroup0 = '''' then resourceGroup else vnetResourceGroup0) in
    unless_err (GetConfigVarStringValue (configVarResolver p) (raw_Location rawCfg))
      (\<lambda>err. Errorf ''failed to get the value of "location" field, error = %v'' [AErr err]) (\<lambda>location.
    unless_err (GetConfigVarStringValue (configVarResolver p) (raw_VMSize rawCfg))
      (\<lambda>err. Errorf ''failed to get the value of "vmSize" field, error = %v'' [AErr err]) (\<lambda>vmSize.
    unless_err (GetConfigVarStringValue (configVarResolver p) (raw_VNetName rawCfg))
      (\<lambda>err. Errorf ''failed to get the value of "vnetName" field, error = %v'' [AErr err]) (\<lambda>vnetName.
    unless_err (GetConfigVarStringValue (configVarResolver p) (raw_SubnetName rawCfg))
      (\<lambda>err. Errorf ''failed to get the value of "subnetName" field, error = %v'' [AErr err]) (\<lambda>subnetName.
    unless_err (GetConfigVarStringValue (configVarResolver p) (raw_LoadBalancerSku rawCfg))
      (\<lambda>err. Errorf ''failed to get the value of "loadBalancerSku" field, error = %v'' [AErr err]) (\<lambda>loadBalancerSku.
    unless_err (GetConfigVarStringValue (configVarResolver p) (raw_RouteTableName rawCfg))
      (\<lambda>err. Errorf ''failed to get the value of "routeTableName" field, error = %v'' [AErr err]) (\<lambda>routeTableName.
    unless_err (GetConfigVarBoolValue (configVarResolver p) (raw_AssignPublicIP rawCfg))
      (\<lambda>err. Errorf ''failed to get the value of "assignPublicIP" field, error = %v'' [AErr err]) (\<lambda>assignPublicIP.
    unless_err (GetConfigVarStringValue (configVarResolver p) (raw_AvailabilitySet rawCfg))
      (\<lambda>err. Errorf ''failed to get the value of "availabilitySet" field, error = %v'' [AErr err]) (\<lambda>availabilitySet.
    unless_err (GetConfigVarStringValue (configVarResolver p) (raw_SecurityGroupName rawCfg))
      (\<lambda>err. Errorf ''failed to get the value of "securityGroupName" field, error = %v'' [AErr err]) (\<lambda>securityGroupName.
    unless_err (GetConfigVarStringValue (configVarResolver p) (raw_ImageID rawCfg))
      (\<lambda>err. Errorf ''failed to get image id: %v'' [AErr err]) (\<lambda>imageID.
    Inr (\<lparr> SubscriptionID = subscriptionID,
           TenantID = tenantID,
           ClientID = clientID,
           ClientSecret = clientSecret,
           Location = location,
           ResourceGroup = resourceGroup,
           VNetResourceGroup = vnetResourceGroup,
           VMSize = vmSize,
           VNetName = vnetName,
           SubnetName = subnetName,
           LoadBalancerSku = loadBalancerSku,
           RouteTableName = routeTableName,
           AvailabilitySet = availabilitySet,
           AssignAvailabilitySet = raw_AssignAvailabilitySet rawCfg,
           SecurityGroupName = securityGroupName,
           ImageID = imageID,
           Zones = raw_Zones rawCfg,
           ImagePlan =
             (case raw_ImagePlan rawCfg of
                None \<Rightarrow> None
              | Some plan \<Rightarrow>
                  if ip_Name plan \<noteq> '''' then
                    Some \<lparr> plan_Name = Some (ip_Name plan),
                           plan_Publisher = Some (ip_Publisher plan),
                           plan_Product = Some (ip_Product plan) \<rparr>
                  else None),
           ImageReference =
             (case raw_ImageReference rawCfg of
                None \<Rightarrow> None
              | Some ref \<Rightarrow>
                  Some \<lparr> ir_Publisher = Some (rir_Publisher ref),
                         ir_Offer = Some (rir_Offer ref),
                         ir_Sku = Some (rir_Sku ref),
                         ir_Version = Some (rir_Version ref),
                         ir_ID = None \<rparr>),
           OSDiskSize = raw_OSDiskSize rawCfg,
           OSDiskSKU = (case raw_OSDiskSKU rawCfg of None \<Rightarrow> None | Some sku \<Rightarrow> storageTypePtr sku),
           DataDiskSize = raw_DataDiskSize rawCfg,
           DataDiskSKU = (case raw_DataDiskSKU rawCfg of None \<Rightarrow> None | Some sku \<Rightarrow> storageTypePtr sku),
           AssignPublicIP = fst assignPublicIP,
           Tags = raw_Tags rawCfg \<rparr>, pconfig))))))))))))))))))))))\<close>

section \<open>Types of the remote service\<close>

text \<open>
  The Azure SDK types, with the fields the source reads. A pointer or slice the source
  tests against \<^verbatim>\<open>nil\<close> is an \<open>option\<close>.
\<close>

record NetworkInterfaceReference =
  nir_ID :: "string option"

record NetworkProfile =
  NetworkInterfaces :: "NetworkInterfaceReference list option"

record VirtualMachineProperties =
  NetworkProfile :: "NetworkProfile option"

record VirtualMachine =
  vm_ID :: "string option"
  vm_Name :: "string option"
  vm_Tags :: "(string \<rightharpoonup> string) option"
  VirtualMachineProperties :: "VirtualMachineProperties option"

record InterfaceIPConfiguration =
  ipc_Name :: "string option"
  ipc_ID :: "string option"
  PrivateIPAddress :: "string option"

record Interface =
  if_ID :: "string option"
  IPConfigurations :: "InterfaceIPConfiguration list option"

record PublicIPAddress =
  IPConfiguration :: "unit option"
  IPAddress :: "string option"

record InstanceViewStatus =
  status_Code :: "string option"

record VirtualMachineInstanceView =
  Statuses :: "InstanceViewStatus list option"

text \<open>
  The paged result of \<^verbatim>\<open>vmClient.ListAll\<close>: \<open>Done\<close> when \<^verbatim>\<open>NotDone()\<close> is false; otherwise
  the \<^verbatim>\<open>Values()\<close> of the page and what \<^verbatim>\<open>Next()\<close> does: move to the following page, or fail.
\<close>

datatype 'a ListResultPage =
    Done
  | Page "'a list" "'a ListResultPage"
  | PageThenError "'a list" error

record Future =
  WaitForCompletionRef :: "error option"
  Result :: "error + VirtualMachine"

text \<open>
  A disk of the SDK. Its name is a pointer and its tags are a map, and either may be nil
  (\<open>None\<close>): reading through a nil name and writing into a nil map panic.
\<close>

record Disk =
  disk_Name :: "string option"
  disk_Tags :: "(string \<rightharpoonup> string) option"

record OSDisk =
  osd_DiskSizeGB :: "32 word"
  osd_ManagedDisk :: "string option"

record DataDisk =
  Lun :: "32 word"
  dd_DiskSizeGB :: "32 word"
  dd_ManagedDisk :: "string option"

record StorageProfile =
  sp_ImageReference :: ImageReference
  OsDisk :: "OSDisk option"
  DataDisks :: "DataDisk list option"

text \<open>
  The \<^verbatim>\<open>compute.VirtualMachine\<close> sent by \<^verbatim>\<open>vmClient.CreateOrUpdate\<close>. The admin user, the
  generated SSH key and the base64 text of the user data are payload that no branch of
  the source depends on; they are left out.
\<close>

record VMSpecProperties =
  spec_VMSize :: string
  spec_NetworkInterfaceID :: "string option"
  spec_ComputerName :: string
  spec_StorageProfile :: StorageProfile
  spec_AvailabilitySet :: "string option"

record VMSpec =
  spec_Location :: string
  spec_Plan :: "Plan option"
  spec_Properties :: "VMSpecProperties option"
  spec_Tags :: "string \<rightharpoonup> string"
  spec_Zones :: "string list option"

text \<open>The calls that create, change or delete a remote resource, with their arguments.\<close>

datatype call =
    CreateOrUpdatePublicIPAddress string IPVersion PublicIPAddressSkuName IPAllocationMethod string
  | CreateOrUpdateNetworkInterface string string "PublicIPAddress option" "PublicIPAddress option" IPFamily
  | VMCreateOrUpdate string string VMSpec
  | DiskCreateOrUpdate string string Disk
  | DeleteVMsByMachineUID string
  | DeleteDisksByMachineUID string
  | DeleteInterfacesByMachineUID string
  | DeleteIPAddressesByMachineUID string

text \<open>
  The remote service is opaque and fallible: \<open>azure\<close> holds its answers during one
  invocation. The client constructors (\<^verbatim>\<open>getVMClient\<close> and its siblings), the functions
  \<^verbatim>\<open>createOrUpdatePublicIPAddress\<close>, \<^verbatim>\<open>createOrUpdateNetworkInterface\<close>,
  \<^verbatim>\<open>getDisksByMachineUID\<close> and \<^verbatim>\<open>delete...ByMachineUID\<close> of the package, and
  \<^verbatim>\<open>ssh.NewKey\<close> are outside the source files; each is a parameter here.
\<close>

record azure =
  getVMClient :: "config \<Rightarrow> error option"
  getInterfacesClient :: "config \<Rightarrow> error option"
  getIPClient :: "config \<Rightarrow> error option"
  getIPConfigClient :: "config \<Rightarrow> error option"
  getDisksClient :: "config \<Rightarrow> error option"
  ssh_NewKey :: "error option"
  ifClient_Get :: "string \<Rightarrow> string \<Rightarrow> error + Interface"
  ipClient_Get :: "string \<Rightarrow> string \<Rightarrow> error + PublicIPAddress"
  ipConfigClient_Get :: "string \<Rightarrow> string \<Rightarrow> string \<Rightarrow> error + InterfaceIPConfiguration"
  vmClient_ListAll :: "error + VirtualMachine ListResultPage"
  vmClient_Get :: "string \<Rightarrow> string \<Rightarrow> error + VirtualMachine"
  vmClient_InstanceView :: "string \<Rightarrow> string \<Rightarrow> error + VirtualMachineInstanceView"
  getDisksByMachineUID :: "string \<Rightarrow> error + Disk list"
  remote_publicIP :: "call \<Rightarrow> error + PublicIPAddress"
  remote_interface :: "call \<Rightarrow> error + Interface"
  remote_future :: "call \<Rightarrow> error + Future"
  remote_delete :: "call \<Rightarrow> error option"

section \<open>Reading addresses and status\<close>

text \<open>
  \<^verbatim>\<open>strings.Split(s, "/")\<close>, for a separator of one character: the pieces between the
  separators, one more than there are separators.
\<close>

fun strings_Split :: "string \<Rightarrow> char \<Rightarrow> string list" where
  "strings_Split [] sep = [[]]"
| "strings_Split (c # cs) sep =
     (if c = sep then [] # strings_Split cs sep
      else (case strings_Split cs sep of
              [] \<Rightarrow> [[c]]
            | piece # pieces \<Rightarrow> (c # piece) # pieces))"

definition ifaceName :: "string \<Rightarrow> string" where
  "ifaceName machineName = machineName @ ''-netiface''"

definition publicIPName :: "string \<Rightarrow> string" where
  "publicIPName iface = iface @ ''-pubip''"

definition publicIPv6Name :: "string \<Rightarrow> string" where
  "publicIPv6Name iface = iface @ ''-pubipv6''"

definition getIPAddressStrings :: "azure \<Rightarrow> config \<Rightarrow> string \<Rightarrow> error + string list" where
  "getIPAddressStrings az c addrName =
    (case getIPClient az c of
       Some err \<Rightarrow> Inl (Errorf ''failed to create IP address client: %v'' [AErr err])
     | None \<Rightarrow>
    (case ipClient_Get az (ResourceGroup c) addrName of
       Inl err \<Rightarrow> Inl (Errorf ''failed to get IP %q: %v'' [AStr addrName, AErr err])
     | Inr ip \<Rightarrow>
    (case IPConfiguration ip of
       None \<Rightarrow> Inl (Errorf ''IP %q has nil IPConfiguration'' [AStr addrName])
     | Some _ \<Rightarrow>
       Inr (case IPAddress ip of None \<Rightarrow> [] | Some a \<Rightarrow> [a]))))"

definition getInternalIPAddresses :: "azure \<Rightarrow> config \<Rightarrow> string \<Rightarrow> string \<Rightarrow> error + string list" where
  "getInternalIPAddresses az c inetface ipconfigName =
    (case getIPConfigClient az c of
       Some err \<Rightarrow> Inl (Errorf ''failed to create IP config client: %v'' [AErr err])
     | None \<Rightarrow>
    (case ipConfigClient_Get az (ResourceGroup c) inetface ipconfigName of
       Inl err \<Rightarrow> Inl (Errorf ''failed to get IP config %q: %v'' [AStr inetface, AErr err])
     | Inr internalIP \<Rightarrow>
    (case ipc_ID internalIP of
       None \<Rightarrow> Inl (Errorf ''private IP %q has nil IPConfiguration'' [AStr inetface])
     | Some _ \<Rightarrow>
       Inr (case PrivateIPAddress internalIP of None \<Rightarrow> [] | Some a \<Rightarrow> [a]))))"

text \<open>\<^verbatim>\<open>for _, ip := range ips { ipAddresses[ip] = t }\<close>\<close>

definition setAddresses ::
  "(string \<rightharpoonup> NodeAddressType) \<Rightarrow> string list \<Rightarrow> NodeAddressType \<Rightarrow> (string \<rightharpoonup> NodeAddressType)" where
  "setAddresses ipAddresses ips t = fold (\<lambda>ip m. m(ip \<mapsto> t)) ips ipAddresses"

text \<open>The body of the loop of \<^verbatim>\<open>getNICIPAddresses\<close> over the IP configurations of a NIC.\<close>

definition nicIPConfiguration ::
  "azure \<Rightarrow> config \<Rightarrow> string \<Rightarrow> InterfaceIPConfiguration \<Rightarrow> (string \<rightharpoonup> NodeAddressType)
    \<Rightarrow> error + (string \<rightharpoonup> NodeAddressType)" where
  "nicIPConfiguration az c iface conf ipAddresses =
    unless_err
      (case ipc_Name conf of
         Some n \<Rightarrow> Inr n
       | None \<Rightarrow>
          (case ipc_ID conf of
             None \<Rightarrow> Inl (Errorf ''IP configuration of NIC %q was returned with no ID'' [AStr iface])
           | Some confID \<Rightarrow>
               if length confID = 0
               then Inl (Errorf ''IP configuration of NIC %q was returned with no ID'' [AStr iface])
               else Inr (last (strings_Split confID CHR ''/''))))
      id (\<lambda>name.
    unless_err
      (if AssignPublicIP c then
         unless_err (getIPAddressStrings az c (publicIPName iface))
           (\<lambda>err. Errorf ''failed to retrieve IP string for IP %q: %v'' [AStr name, AErr err]) (\<lambda>publicIPs.
         unless_err (getIPAddressStrings az c (publicIPv6Name iface))
           (\<lambda>err. Errorf ''failed to retrieve IP string for IP %q: %v'' [AStr name, AErr err]) (\<lambda>publicIP6s.
         Inr (setAddresses (setAddresses ipAddresses publicIPs NodeExternalIP) publicIP6s NodeExternalIP)))
       else Inr ipAddresses)
      id (\<lambda>ipAddresses.
    unless_err (getInternalIPAddresses az c iface name)
      (\<lambda>err. Errorf ''failed to retrieve internal IP string for IP %q: %v'' [AStr name, AErr err]) (\<lambda>internalIPs.
    Inr (setAddresses ipAddresses internalIPs NodeInternalIP))))"

fun nicIPConfigurations ::
  "azure \<Rightarrow> config \<Rightarrow> string \<Rightarrow> InterfaceIPConfiguration list \<Rightarrow> (string \<rightharpoonup> NodeAddressType)
    \<Rightarrow> error + (string \<rightharpoonup> NodeAddressType)" where
  "nicIPConfigurations az c iface [] ipAddresses = Inr ipAddresses"
| "nicIPConfigurations az c iface (conf # confs) ipAddresses =
    (case nicIPConfiguration az c iface conf ipAddresses of
       Inl err \<Rightarrow> Inl err
     | Inr ipAddresses' \<Rightarrow> nicIPConfigurations az c iface confs ipAddresses')"

definition getNICIPAddresses :: "azure \<Rightarrow> config \<Rightarrow> string \<Rightarrow> error + (string \<rightharpoonup> NodeAddressType)" where
  "getNICIPAddresses az c iface =
    (case getInterfacesClient az c of
       Some err \<Rightarrow> Inl (Errorf ''failed to create interfaces client: %v'' [AErr err])
     | None \<Rightarrow>
    (case ifClient_Get az (ResourceGroup c) iface of
       Inl err \<Rightarrow> Inl (Errorf ''failed to get interface %q: %v'' [AStr iface, AErr err])
     | Inr netIf \<Rightarrow>
    (case IPConfigurations netIf of
       None \<Rightarrow> Inr Map.empty
     | Some confs \<Rightarrow> nicIPConfigurations az c iface confs Map.empty)))"

text \<open>
  The loop of \<^verbatim>\<open>getVMIPAddresses\<close> over the interfaces of the VM, from index \<open>n\<close> on.
  \<open>networkInterfaces\<close> is \<^verbatim>\<open>vm.NetworkProfile.NetworkInterfaces\<close>, which the source tests
  after each lookup where a test of \<^verbatim>\<open>err\<close> would stand. A Go map is \<open>None\<close> when
  \<^verbatim>\<open>nil\<close>; the lookup returns a \<^verbatim>\<open>nil\<close> map together with each error.
\<close>

fun vmInterfaces ::
  "azure \<Rightarrow> config \<Rightarrow> NetworkInterfaceReference list option \<Rightarrow> nat \<Rightarrow> NetworkInterfaceReference list
    \<Rightarrow> (string \<rightharpoonup> NodeAddressType) option \<Rightarrow> error + (string \<rightharpoonup> NodeAddressType) option" where
  "vmInterfaces az c networkInterfaces n [] ipAddresses = Inr ipAddresses"
| "vmInterfaces az c networkInterfaces n (iface # ifaces) ipAddresses =
    (case nir_ID iface of
       None \<Rightarrow> Inl (Errorf ''interface %d has no ID'' [ANum n])
     | Some ifaceID \<Rightarrow>
        if length ifaceID = 0 then Inl (Errorf ''interface %d has no ID'' [ANum n])
        else
          (let splitIfaceID = strings_Split ifaceID CHR ''/'';
               name = last splitIfaceID;
               looked = getNICIPAddresses az c name;
               ipAddresses' = (case looked of Inl _ \<Rightarrow> None | Inr m \<Rightarrow> Some m);
               err = (case looked of Inl e \<Rightarrow> AErr e | Inr _ \<Rightarrow> ANil)
           in if networkInterfaces = None
              then Inl (Errorf ''failed to get addresses for interface %q: %v'' [AStr name, err])
              else vmInterfaces az c networkInterfaces (Suc n) ifaces ipAddresses'))"

definition getVMIPAddresses ::
  "azure \<Rightarrow> config \<Rightarrow> VirtualMachine \<Rightarrow> error + (string \<rightharpoonup> NodeAddressType) option" where
  "getVMIPAddresses az c vm =
    (case VirtualMachineProperties vm of
       None \<Rightarrow> Inl (Errorf ''machine is missing properties'' [])
     | Some props \<Rightarrow>
    (case NetworkProfile props of
       None \<Rightarrow> Inl (Errorf ''machine has no network profile'' [])
     | Some profile \<Rightarrow>
    (case NetworkInterfaces profile of
       None \<Rightarrow> Inl (Errorf ''machine has no network interfaces data'' [])
     | Some ifaces \<Rightarrow> vmInterfaces az c (NetworkInterfaces profile) 0 ifaces (Some Map.empty))))"

text \<open>
  \<^verbatim>\<open>getVMStatus\<close> returns the pair of Go as it is: a status and an error or \<^verbatim>\<open>nil\<close>.
  With fewer than two statuses the source reads \<^verbatim>\<open>(*iv.Statuses)[0]\<close>, which panics with
  an index out of range when the list is empty.
\<close>

definition getVMStatus :: "azure \<Rightarrow> config \<Rightarrow> string \<Rightarrow> (Status \<times> error option) go" where
  "getVMStatus az c vmName =
    (case getVMClient az c of
       Some err \<Rightarrow> Return (StatusUnknown, Some err)
     | None \<Rightarrow>
    (case vmClient_InstanceView az (ResourceGroup c) vmName of
       Inl err \<Rightarrow>
         Return (StatusUnknown,
                 Some (Errorf ''failed to get instance view for machine %q: %v'' [AStr vmName, AErr err]))
     | Inr iv \<Rightarrow>
    (case Statuses iv of
       None \<Rightarrow> Return (StatusUnknown, None)
     | Some statuses \<Rightarrow>
        if length statuses < 2 then
          (case statuses of
             [] \<Rightarrow> Panic
           | provisioningStatus # _ \<Rightarrow>
              (case status_Code provisioningStatus of
                 None \<Rightarrow> Return (StatusUnknown, None)
               | Some code \<Rightarrow>
                  if code = '''' then Return (StatusUnknown, None)
                  else if code = ''ProvisioningState/deleting'' then Return (StatusDeleting, None)
                  else Return (StatusUnknown, None)))
        else
          (let powerStatus = statuses ! 1 in
           case status_Code powerStatus of
             None \<Rightarrow> Return (StatusUnknown, None)
           | Some code \<Rightarrow>
              if code = '''' then Return (StatusUnknown, None)
              else if code = ''PowerState/running'' then Return (StatusRunning, None)
              else if code = ''PowerState/starting'' then Return (StatusCreating, None)
              else Return (StatusUnknown, None)))))"

section \<open>The Machine record, its finalizers and the trace of an invocation\<close>

record MachineSpec =
  ProviderSpec :: ProviderSpec

record Machine =
  Name :: string
  UID :: string
  Finalizers :: "string list"
  Spec :: MachineSpec

text \<open>
  What an invocation does to the world, in order: \<open>Committed fs\<close> is a successful
  \<^verbatim>\<open>data.Update\<close>, after which the stored Machine has the finalizers \<open>fs\<close>; \<open>Issued c\<close> is
  a call that creates, changes or deletes a remote resource, recorded whether it succeeds
  or fails.
\<close>

datatype event = Committed "string list" | Issued call

record state =
  machine :: Machine
  trace :: "event list"

text \<open>
  A step of an operation: it returns an error or a value, or panics, and leaves a state.
  \<open>andThen\<close> is the idiom \<^verbatim>\<open>v, err := step(); if err != nil { return nil, wrap(err) }\<close>.
\<close>

definition calc :: "error + 'a \<Rightarrow> state \<Rightarrow> (error + 'a) go \<times> state" where
  "calc r s = (Return r, s)"

definition failing :: "error option \<Rightarrow> error + unit" where
  "failing e = (case e of Some err \<Rightarrow> Inl err | None \<Rightarrow> Inr ())"

definition andThen ::
  "(state \<Rightarrow> (error + 'a) go \<times> state) \<Rightarrow> (error \<Rightarrow> error)
    \<Rightarrow> ('a \<Rightarrow> state \<Rightarrow> (error + 'b) go \<times> state) \<Rightarrow> state \<Rightarrow> (error + 'b) go \<times> state" where
  "andThen step wrap k s =
    (case step s of
       (Panic, s') \<Rightarrow> (Panic, s')
     | (Return (Inl err), s') \<Rightarrow> (Return (Inl (wrap err)), s')
     | (Return (Inr v), s') \<Rightarrow> k v s')"

text \<open>
  Modelled from the spec: \<^verbatim>\<open>kuberneteshelper.HasFinalizer\<close> and \<^verbatim>\<open>RemoveFinalizer\<close>
  (package \<^verbatim>\<open>pkg/kubernetes\<close>, not among the source files). The spec: a Machine has "a
  mutable \<open>Finalizers\<close> set"; a finalizer is "a named marker on an owning record".
  \<open>HasFinalizer\<close> tests membership; \<open>RemoveFinalizer\<close> removes the marker and keeps the
  others in their order.
\<close>

definition HasFinalizer :: "Machine \<Rightarrow> string \<Rightarrow> bool" where
  "HasFinalizer m finalizer = (finalizer \<in> set (Finalizers m))"

definition RemoveFinalizer :: "string list \<Rightarrow> string \<Rightarrow> string list" where
  "RemoveFinalizer finalizers toRemove = filter (\<lambda>f. f \<noteq> toRemove) finalizers"

text \<open>
  Modelled from the spec: the \<^verbatim>\<open>Update\<close> callback of \<^verbatim>\<open>cloudprovidertypes.ProviderData\<close>
  (supplied by the reconciliation driver, not among the source files). The spec: "an
  \<open>Update(machine, mutatorFn)\<close> callback used to persist finalizer changes
  transactionally against the record store". The store may reject the changed record,
  and then nothing changes; otherwise the mutator is applied to the Machine, the result is
  stored, and \<^verbatim>\<open>machine\<close> is that stored record from then on (the closure's
  \<^verbatim>\<open>updatedMachine\<close> and the caller's \<^verbatim>\<open>machine\<close> are the same object).
\<close>

record ProviderData =
  store_rejects :: "Machine \<Rightarrow> error option"

definition Update :: "ProviderData \<Rightarrow> (Machine \<Rightarrow> Machine) \<Rightarrow> state \<Rightarrow> (error + unit) go \<times> state" where
  "Update data modify s =
    (let updatedMachine = modify (machine s) in
     case store_rejects data updatedMachine of
       Some err \<Rightarrow> (Return (Inl err), s)
     | None \<Rightarrow>
        (Return (Inr ()),
         s\<lparr> machine := updatedMachine,
            trace := trace s @ [Committed (Finalizers updatedMachine)] \<rparr>))"

text \<open>
  The remote calls that affect a resource: the answer is the remote service's, and the
  call is recorded in the trace.
\<close>

definition createOrUpdatePublicIPAddress ::
  "azure \<Rightarrow> string \<Rightarrow> IPVersion \<Rightarrow> PublicIPAddressSkuName \<Rightarrow> IPAllocationMethod \<Rightarrow> string
    \<Rightarrow> state \<Rightarrow> (error + PublicIPAddress) go \<times> state" where
  "createOrUpdatePublicIPAddress az ipName ipVersion sku ipAllocationMethod machineUID s =
    (let c = CreateOrUpdatePublicIPAddress ipName ipVersion sku ipAllocationMethod machineUID
     in (Return (remote_publicIP az c), s\<lparr> trace := trace s @ [Issued c] \<rparr>))"

definition createOrUpdateNetworkInterface ::
  "azure \<Rightarrow> string \<Rightarrow> string \<Rightarrow> PublicIPAddress option \<Rightarrow> PublicIPAddress option \<Rightarrow> IPFamily
    \<Rightarrow> state \<Rightarrow> (error + Interface) go \<times> state" where
  "createOrUpdateNetworkInterface az ifName machineUID publicIP publicIPv6 ipFamily s =
    (let c = CreateOrUpdateNetworkInterface ifName machineUID publicIP publicIPv6 ipFamily
     in (Return (remote_interface az c), s\<lparr> trace := trace s @ [Issued c] \<rparr>))"

definition vmClient_CreateOrUpdate ::
  "azure \<Rightarrow> string \<Rightarrow> string \<Rightarrow> VMSpec \<Rightarrow> state \<Rightarrow> (error + Future) go \<times> state" where
  "vmClient_CreateOrUpdate az resourceGroup vmName vmSpec s =
    (let c = VMCreateOrUpdate resourceGroup vmName vmSpec
     in (Return (remote_future az c), s\<lparr> trace := trace s @ [Issued c] \<rparr>))"

definition disksClient_CreateOrUpdate ::
  "azure \<Rightarrow> string \<Rightarrow> string \<Rightarrow> Disk \<Rightarrow> state \<Rightarrow> (error + Future) go \<times> state" where
  "disksClient_CreateOrUpdate az resourceGroup diskName disk s =
    (let c = DiskCreateOrUpdate resourceGroup diskName disk
     in (Return (remote_future az c), s\<lparr> trace := trace s @ [Issued c] \<rparr>))"

definition remoteDelete :: "azure \<Rightarrow> call \<Rightarrow> state \<Rightarrow> (error + unit) go \<times> state" where
  "remoteDelete az c s = (Return (failing (remote_delete az c)), s\<lparr> trace := trace s @ [Issued c] \<rparr>)"

definition deleteVMsByMachineUID :: "azure \<Rightarrow> string \<Rightarrow> state \<Rightarrow> (error + unit) go \<times> state" where
  "deleteVMsByMachineUID az machineUID = remoteDelete az (DeleteVMsByMachineUID machineUID)"

definition deleteDisksByMachineUID :: "azure \<Rightarrow> string \<Rightarrow> state \<Rightarrow> (error + unit) go \<times> state" where
  "deleteDisksByMachineUID az machineUID = remoteDelete az (DeleteDisksByMachineUID machineUID)"

definition deleteInterfacesByMachineUID :: "azure \<Rightarrow> string \<Rightarrow> state \<Rightarrow> (error + unit) go \<times> state" where
  "deleteInterfacesByMachineUID az machineUID = remoteDelete az (DeleteInterfacesByMachineUID machineUID)"

definition deleteIPAddressesByMachineUID :: "azure \<Rightarrow> string \<Rightarrow> state \<Rightarrow> (error + unit) go \<times> state" where
  "deleteIPAddressesByMachineUID az machineUID = remoteDelete az (DeleteIPAddressesByMachineUID machineUID)"

section \<open>Create\<close>

definition imageReferences :: "OperatingSystem \<Rightarrow> ImageReference option" where
  "imageReferences os =
    (case os of
       OperatingSystemCentOS \<Rightarrow>
         Some \<lparr> ir_Publisher = Some ''OpenLogic'', ir_Offer = Some ''CentOS'',
                ir_Sku = Some ''7_9'', ir_Version = Some ''latest'', ir_ID = None \<rparr>
     | OperatingSystemUbuntu \<Rightarrow>
         Some \<lparr> ir_Publisher = Some ''Canonical'', ir_Offer = Some ''0001-com-ubuntu-server-focal'',
                ir_Sku = Some ''20_04-lts'', ir_Version = Some ''latest'', ir_ID = None \<rparr>
     | OperatingSystemRHEL \<Rightarrow>
         Some \<lparr> ir_Publisher = Some ''RedHat'', ir_Offer = Some ''rhel-byos'',
                ir_Sku = Some ''rhel-lvm83'', ir_Version = Some ''8.3.20201109'', ir_ID = None \<rparr>
     | OperatingSystemFlatcar \<Rightarrow>
         Some \<lparr> ir_Publisher = Some ''kinvolk'', ir_Offer = Some ''flatcar-container-linux'',
                ir_Sku = Some ''stable'', ir_Version = Some ''2905.2.5'', ir_ID = None \<rparr>
     | OperatingSystemRockyLinux \<Rightarrow>
         Some \<lparr> ir_Publisher = Some ''procomputers'', ir_Offer = Some ''rocky-linux-8-5'',
                ir_Sku = Some ''rocky-linux-8-5'', ir_Version = Some ''8.5.20211118'', ir_ID = None \<rparr>
     | OperatingSystemOther _ \<Rightarrow> None)"

definition osPlans :: "OperatingSystem \<Rightarrow> Plan option" where
  "osPlans os =
    (case os of
       OperatingSystemFlatcar \<Rightarrow>
         Some \<lparr> plan_Name = Some ''stable'', plan_Publisher = Some ''kinvolk'',
                plan_Product = Some ''flatcar-container-linux'' \<rparr>
     | OperatingSystemRHEL \<Rightarrow>
         Some \<lparr> plan_Name = Some ''rhel-lvm83'', plan_Publisher = Some ''redhat'',
                plan_Product = Some ''rhel-byos'' \<rparr>
     | OperatingSystemRockyLinux \<Rightarrow>
         Some \<lparr> plan_Name = Some ''rocky-linux-8-5'', plan_Publisher = Some ''procomputers'',
                plan_Product = Some ''rocky-linux-8-5'' \<rparr>
     | _ \<Rightarrow> None)"

definition getOSImageReference :: "config \<Rightarrow> OperatingSystem \<Rightarrow> error + ImageReference" where
  "getOSImageReference c os =
    (if ImageID c \<noteq> '''' then
       Inr \<lparr> ir_Publisher = None, ir_Offer = None, ir_Sku = None, ir_Version = None,
             ir_ID = Some (ImageID c) \<rparr>
     else
       (case ImageReference c of
          Some r \<Rightarrow>
            Inr \<lparr> ir_Publisher = ir_Publisher r, ir_Offer = ir_Offer r, ir_Sku = ir_Sku r,
                  ir_Version = ir_Version r, ir_ID = None \<rparr>
        | None \<Rightarrow>
           (case imageReferences os of
              None \<Rightarrow> Inl (Errorf ''operating system %q not supported'' [AOS os])
            | Some ref \<Rightarrow> Inr ref)))"

definition getStorageProfile :: "config \<Rightarrow> Config \<Rightarrow> error + StorageProfile" where
  "getStorageProfile config providerCfg =
    (case getOSImageReference config (OperatingSystem providerCfg) of
       Inl err \<Rightarrow> Inl (Errorf ''failed to get OSImageReference: %v'' [AErr err])
     | Inr osRef \<Rightarrow>
        Inr \<lparr> sp_ImageReference = osRef,
              OsDisk =
                (if OSDiskSize config \<noteq> 0
                 then Some \<lparr> osd_DiskSizeGB = OSDiskSize config, osd_ManagedDisk = OSDiskSKU config \<rparr>
                 else None),
              DataDisks =
                (if DataDiskSize config \<noteq> 0
                 then Some [\<lparr> Lun = 0, dd_DiskSizeGB = DataDiskSize config,
                              dd_ManagedDisk = DataDiskSKU config \<rparr>]
                 else None) \<rparr>)"

record azureVM =
  vm :: VirtualMachine
  ipAddresses :: "(string \<rightharpoonup> NodeAddressType) option"
  status :: Status

text \<open>The result pair of \<^verbatim>\<open>getVMStatus\<close>, read as the callers read it: the error first.\<close>

definition statusOrError :: "(Status \<times> error option) go \<Rightarrow> (error + Status) go" where
  "statusOrError r =
    (case r of
       Panic \<Rightarrow> Panic
     | Return (st, Some err) \<Rightarrow> Return (Inl err)
     | Return (st, None) \<Rightarrow> Return (Inr st))"

definition addFinalizer :: "string \<Rightarrow> Machine \<Rightarrow> Machine" where
  "addFinalizer finalizer updatedMachine =
    (if \<not> HasFinalizer updatedMachine finalizer
     then updatedMachine\<lparr> Finalizers := Finalizers updatedMachine @ [finalizer] \<rparr>
     else updatedMachine)"

text \<open>
  \<^verbatim>\<open>Create\<close>. The Machine is the one of the state; its name and UID are read once, no
  mutator changes them. In the last mutator the source tests \<^verbatim>\<open>machine\<close> for the VM
  finalizer where it tests \<^verbatim>\<open>updatedMachine\<close> for the disks finalizer; both name the
  record being updated.
\<close>

definition Create :: "provider \<Rightarrow> azure \<Rightarrow> ProviderData \<Rightarrow> string \<Rightarrow> state \<Rightarrow> (error + azureVM) go \<times> state" where
  "Create p az data userdata s =
    (let machineName = Name (machine s); machineUID = UID (machine s) in
     case getConfig p (ProviderSpec (Spec (machine s))) of
       Inl err \<Rightarrow>
         (Return (Inl (TerminalError InvalidConfigurationMachineError
                         (Sprintf ''failed to parse MachineSpec, due to %v'' [AErr err]))), s)
     | Inr (config, providerCfg) \<Rightarrow>
    (andThen (calc (failing (getVMClient az config)))
       (\<lambda>err. Errorf ''failed to create VM client: %v'' [AErr err]) (\<lambda>_.
     andThen (calc (failing (ssh_NewKey az)))
       (\<lambda>err. Errorf ''failed to generate ssh key: %v'' [AErr err]) (\<lambda>_.
     (let ipFamily = Network_IPFamily providerCfg;
          sku = (if ipFamily = DualStack then PublicIPAddressSkuNameStandard
                 else PublicIPAddressSkuNameBasic) in
     andThen
       (if AssignPublicIP config then
          andThen (Update data (addFinalizer finalizerPublicIP)) id (\<lambda>_.
          andThen (createOrUpdatePublicIPAddress az (publicIPName (ifaceName machineName))
                     IPVersionIPv4 sku IPAllocationMethodStatic machineUID)
            (\<lambda>err. Errorf ''failed to create public IP: %v'' [AErr err]) (\<lambda>publicIP.
          if ipFamily = DualStack then
            andThen (createOrUpdatePublicIPAddress az (publicIPv6Name (ifaceName machineName))
                       IPVersionIPv6 sku IPAllocationMethodStatic machineUID)
              (\<lambda>err. Errorf ''failed to create public IP: %v'' [AErr err]) (\<lambda>publicIPv6.
            calc (Inr (Some publicIP, Some publicIPv6)))
          else calc (Inr (Some publicIP, None))))
        else calc (Inr (None, None)))
       id (\<lambda>(publicIP, publicIPv6).
     andThen (Update data (addFinalizer finalizerNIC)) id (\<lambda>_.
     andThen (createOrUpdateNetworkInterface az (ifaceName machineName) machineUID
                publicIP publicIPv6 ipFamily)
       (\<lambda>err. Errorf ''failed to generate main network interface: %v'' [AErr err]) (\<lambda>iface.
     (let tags = (Tags config)(machineUIDTag \<mapsto> machineUID);
          osPlane = (case ImagePlan config of
                       Some plan \<Rightarrow> Some plan
                     | None \<Rightarrow> osPlans (OperatingSystem providerCfg)) in
     andThen (calc (getStorageProfile config providerCfg))
       (\<lambda>err. Errorf ''failed to get StorageProfile: %v'' [AErr err]) (\<lambda>storageProfile.
     (let vmSpec =
            \<lparr> spec_Location = Location config,
              spec_Plan = osPlane,
              spec_Properties = Some
                \<lparr> spec_VMSize = VMSize config,
                  spec_NetworkInterfaceID = if_ID iface,
                  spec_ComputerName = machineName,
                  spec_StorageProfile = storageProfile,
                  spec_AvailabilitySet =
                    (if (AssignAvailabilitySet config = None \<and> AvailabilitySet config \<noteq> '''')
                        \<or> (AssignAvailabilitySet config = Some True \<and> AvailabilitySet config \<noteq> '''')
                     then Some (''/subscriptions/'' @ SubscriptionID config @ ''/resourceGroups/''
                                @ ResourceGroup config
                                @ ''/providers/Microsoft.Compute/availabilitySets/''
                                @ AvailabilitySet config)
                     else None) \<rparr>,
              spec_Tags = tags,
              spec_Zones = Some (Zones config) \<rparr> in
     andThen (Update data (\<lambda>updatedMachine. addFinalizer finalizerVM (addFinalizer finalizerDisks updatedMachine)))
       id (\<lambda>_.
     andThen (vmClient_CreateOrUpdate az (ResourceGroup config) machineName vmSpec)
       (\<lambda>err. Errorf ''trying to create a VM: %v'' [AErr err]) (\<lambda>future.
     andThen (calc (failing (WaitForCompletionRef future)))
       (\<lambda>err. Errorf ''waiting for operation returned: %v'' [AErr err]) (\<lambda>_.
     andThen (calc (Result future))
       (\<lambda>err. Errorf ''decoding result: %v'' [AErr err]) (\<lambda>_.
     andThen (calc (vmClient_Get az (ResourceGroup config) machineName))
       (\<lambda>err. Errorf ''failed to retrieve updated data for VM %q: %v'' [AStr machineName, AErr err]) (\<lambda>vm.
     andThen (calc (getVMIPAddresses az config vm))
       (\<lambda>err. Errorf ''failed to retrieve IP addresses for VM %q: %v'' [AStr machineName, AErr err]) (\<lambda>ipAddresses.
     andThen (\<lambda>s. (statusOrError (getVMStatus az config machineName), s))
       (\<lambda>err. Errorf ''failed to retrieve status for VM %q: %v'' [AStr machineName, AErr err]) (\<lambda>status.
     calc (Inr \<lparr> vm = vm, ipAddresses = ipAddresses, status = status \<rparr>))))))))))))))))) s))"

section \<open>Get\<close>

fun allPages :: "'a ListResultPage \<Rightarrow> 'a list \<Rightarrow> error + 'a list" where
  "allPages Done allServers = Inr allServers"
| "allPages (Page vals rest) allServers = allPages rest (allServers @ vals)"
| "allPages (PageThenError vals err) allServers =
     Inl (Errorf ''failed to iterate the result list: %s'' [AErr err])"

definition hasMachineUID :: "string \<Rightarrow> VirtualMachine \<Rightarrow> bool" where
  "hasMachineUID uid v =
    (case vm_Tags v of
       None \<Rightarrow> False
     | Some tags \<Rightarrow> (case tags machineUIDTag of None \<Rightarrow> False | Some t \<Rightarrow> t = uid))"

definition getVMByUID :: "azure \<Rightarrow> config \<Rightarrow> string \<Rightarrow> error + VirtualMachine" where
  "getVMByUID az c uid =
    (case getVMClient az c of
       Some err \<Rightarrow> Inl err
     | None \<Rightarrow>
    (case vmClient_ListAll az of
       Inl err \<Rightarrow> Inl err
     | Inr list \<Rightarrow>
    (case allPages list [] of
       Inl err \<Rightarrow> Inl err
     | Inr allServers \<Rightarrow>
    (case find (hasMachineUID uid) allServers of
       Some v \<Rightarrow> Inr v
     | None \<Rightarrow> Inl ErrInstanceNotFound))))"

definition get :: "provider \<Rightarrow> azure \<Rightarrow> Machine \<Rightarrow> (error + azureVM) go" where
  "get p az m =
    (case getConfig p (ProviderSpec (Spec m)) of
       Inl err \<Rightarrow> Return (Inl (Errorf ''failed to parse MachineSpec: %v'' [AErr err]))
     | Inr (config, _) \<Rightarrow>
    (case getVMByUID az config (UID m) of
       Inl err \<Rightarrow>
         if err = ErrInstanceNotFound then Return (Inl ErrInstanceNotFound)
         else Return (Inl (Errorf ''failed to find machine %q by its UID: %v'' [AStr (UID m), AErr err]))
     | Inr v \<Rightarrow>
    (case getVMIPAddresses az config v of
       Inl err \<Rightarrow>
         Return (Inl (Errorf ''failed to retrieve IP addresses for VM %v: %v'' [AStrPtr (vm_Name v), AErr err]))
     | Inr addrs \<Rightarrow>
    (case statusOrError (getVMStatus az config (Name m)) of
       Panic \<Rightarrow> Panic
     | Return (Inl err) \<Rightarrow>
         Return (Inl (Errorf ''failed to retrieve status for VM %v: %v'' [AStrPtr (vm_Name v), AErr err]))
     | Return (Inr st) \<Rightarrow>
         Return (Inr \<lparr> vm = v, ipAddresses = addrs, status = st \<rparr>)))))"

definition Get :: "provider \<Rightarrow> azure \<Rightarrow> Machine \<Rightarrow> ProviderData \<Rightarrow> (error + azureVM) go" where
  "Get p az m _ = get p az m"

section \<open>Cleanup\<close>

text \<open>
  Modelled from the spec: \<^verbatim>\<open>util.RemoveFinalizerOnInstanceNotFound\<close> (package
  \<^verbatim>\<open>pkg/cloudprovider/util\<close>, not among the source files). The spec: "if not found, still
  attempt finalizer removal (treat "not found" as "already deleted") and report done once
  the instance finalizer is cleared". It removes the finalizer it is given through
  \<^verbatim>\<open>Update\<close> and reports done, or returns the error of the update.
\<close>

definition RemoveFinalizerOnInstanceNotFound ::
  "string \<Rightarrow> ProviderData \<Rightarrow> state \<Rightarrow> (error + bool) go \<times> state" where
  "RemoveFinalizerOnInstanceNotFound finalizer data =
    andThen (Update data (\<lambda>updatedMachine.
               updatedMachine\<lparr> Finalizers := RemoveFinalizer (Finalizers updatedMachine) finalizer \<rparr>))
      id (\<lambda>_.
    calc (Inr True))"

text \<open>
  \<^verbatim>\<open>Cleanup\<close> returns \<^verbatim>\<open>(bool, error)\<close>: \<^verbatim>\<open>(false, err)\<close> is \<open>Inl err\<close> and \<^verbatim>\<open>(done, nil)\<close> is
  \<open>Inr done\<close>; the source returns no other pair.
\<close>

definition Cleanup :: "provider \<Rightarrow> azure \<Rightarrow> ProviderData \<Rightarrow> state \<Rightarrow> (error + bool) go \<times> state" where
  "Cleanup p az data s =
    (let machineName = Name (machine s); machineUID = UID (machine s) in
     case getConfig p (ProviderSpec (Spec (machine s))) of
       Inl err \<Rightarrow> (Return (Inl (Errorf ''failed to parse MachineSpec: %v'' [AErr err])), s)
     | Inr (config, _) \<Rightarrow>
    (case get p az (machine s) of
       Panic \<Rightarrow> (Panic, s)
     | Return (Inl err) \<Rightarrow>
         if err = ErrInstanceNotFound
         then RemoveFinalizerOnInstanceNotFound finalizerVM data s
         else (Return (Inl err), s)
     | Return (Inr _) \<Rightarrow>
    (andThen (deleteVMsByMachineUID az machineUID)
       (\<lambda>err. Errorf ''failed to delete instance for  machine %q: %v'' [AStr machineName, AErr err]) (\<lambda>_.
     andThen (Update data (\<lambda>updatedMachine.
                updatedMachine\<lparr> Finalizers := RemoveFinalizer (Finalizers updatedMachine) finalizerVM \<rparr>))
       id (\<lambda>_.
     andThen (deleteDisksByMachineUID az machineUID)
       (\<lambda>err. Errorf ''failed to remove disks of machine %q: %v'' [AStr machineName, AErr err]) (\<lambda>_.
     andThen (Update data (\<lambda>updatedMachine.
                updatedMachine\<lparr> Finalizers := RemoveFinalizer (Finalizers updatedMachine) finalizerDisks \<rparr>))
       id (\<lambda>_.
     andThen (deleteInterfacesByMachineUID az machineUID)
       (\<lambda>err. Errorf ''failed to remove network interfaces of machine %q: %v'' [AStr machineName, AErr err]) (\<lambda>_.
     andThen (Update data (\<lambda>updatedMachine.
                updatedMachine\<lparr> Finalizers := RemoveFinalizer (Finalizers updatedMachine) finalizerNIC \<rparr>))
       id (\<lambda>_.
     andThen (deleteIPAddressesByMachineUID az machineUID)
       (\<lambda>err. Errorf ''failed to remove public IP addresses of machine %q: %v'' [AStr machineName, AErr err]) (\<lambda>_.
     andThen (Update data (\<lambda>updatedMachine.
                updatedMachine\<lparr> Finalizers := RemoveFinalizer (Finalizers updatedMachine) finalizerPublicIP \<rparr>))
       id (\<lambda>_.
     calc (Inr True))))))))) s)))"

section \<open>MigrateUID\<close>

text \<open>The loop of \<^verbatim>\<open>MigrateUID\<close> over the disks of the Machine.\<close>

fun migrateDisks :: "azure \<Rightarrow> config \<Rightarrow> string \<Rightarrow> Disk list \<Rightarrow> state \<Rightarrow> (error + unit) go \<times> state" where
  "migrateDisks az config newUID [] s = (Return (Inr ()), s)"
| "migrateDisks az config newUID (disk # disks) s =
    (case disk_Tags disk of
       None \<Rightarrow> (Panic, s)
     | Some diskTags \<Rightarrow>
    (let tagged = disk\<lparr> disk_Tags := Some (diskTags(machineUIDTag \<mapsto> newUID)) \<rparr> in
     case disk_Name tagged of
       None \<Rightarrow> (Panic, s)
     | Some diskName \<Rightarrow>
    (case disksClient_CreateOrUpdate az (ResourceGroup config) diskName tagged s of
       (Panic, s') \<Rightarrow> (Panic, s')
     | (Return (Inl err), s') \<Rightarrow>
         (Return (Inl (Errorf ''failed to update UID for disk %s: %v'' [AStr diskName, AErr err])), s')
     | (Return (Inr future), s') \<Rightarrow>
        (case WaitForCompletionRef future of
           Some err \<Rightarrow>
             (Return (Inl (Errorf ''failed waiting for completion of update UID operation for disk %s: %v''
                             [AStr diskName, AErr err])), s')
         | None \<Rightarrow> migrateDisks az config newUID disks s'))))"

definition MigrateUID :: "provider \<Rightarrow> azure \<Rightarrow> string \<Rightarrow> state \<Rightarrow> (error + unit) go \<times> state" where
  "MigrateUID p az newUID s =
    (let m = machine s in
     case getConfig p (ProviderSpec (Spec m)) of
       Inl err \<Rightarrow>
         (Return (Inl (TerminalError InvalidConfigurationMachineError
                         (Sprintf ''failed to parse MachineSpec, due to %v'' [AErr err]))), s)
     | Inr (config, _) \<Rightarrow>
    (andThen (calc (failing (getVMClient az config)))
       (\<lambda>err. Errorf ''failed to create VM client: %v'' [AErr err]) (\<lambda>_.
     (let publicIP = None; publicIPv6 = None in
     andThen
       (if HasFinalizer m finalizerPublicIPv6 then
          andThen (createOrUpdatePublicIPAddress az (publicIPv6Name (ifaceName (Name m)))
                     IPVersionIPv6 PublicIPAddressSkuNameStandard IPAllocationMethodDynamic newUID)
            (\<lambda>err. Errorf ''failed to update UID on public IP: %v'' [AErr err]) (\<lambda>_.
          calc (Inr PublicIPAddressSkuNameStandard))
        else calc (Inr PublicIPAddressSkuNameBasic))
       id (\<lambda>sku.
     andThen
       (if HasFinalizer m finalizerPublicIP then
          andThen (createOrUpdatePublicIPAddress az (publicIPName (ifaceName (Name m)))
                     IPVersionIPv4 sku IPAllocationMethodStatic newUID)
            (\<lambda>err. Errorf ''failed to update UID on public IP: %v'' [AErr err]) (\<lambda>_.
          calc (Inr ()))
        else calc (Inr ()))
       id (\<lambda>_.
     andThen
       (if HasFinalizer m finalizerNIC then
          andThen (createOrUpdateNetworkInterface az (ifaceName (Name m)) newUID
                     publicIP publicIPv6 Unspecified)
            (\<lambda>err. Errorf ''failed to update UID on main network interface: %v'' [AErr err]) (\<lambda>_.
          calc (Inr ()))
        else calc (Inr ()))
       id (\<lambda>_.
     andThen
       (if HasFinalizer m finalizerDisks then
          andThen (calc (failing (getDisksClient az config)))
            (\<lambda>err. Errorf ''failed to get disks client: %v'' [AErr err]) (\<lambda>_.
          andThen (calc (getDisksByMachineUID az (UID m)))
            (\<lambda>err. Errorf ''failed to get disks: %v'' [AErr err]) (\<lambda>disks.
          migrateDisks az config newUID disks))
        else calc (Inr ()))
       id (\<lambda>_.
     (let tags = (Tags config)(machineUIDTag \<mapsto> newUID);
          vmSpec = \<lparr> spec_Location = Location config, spec_Plan = None, spec_Properties = None,
                     spec_Tags = tags, spec_Zones = None \<rparr> in
     andThen (vmClient_CreateOrUpdate az (ResourceGroup config) (Name m) vmSpec)
       (\<lambda>err. Errorf ''failed to update UID of the instance: %v'' [AErr err]) (\<lambda>future.
     andThen (calc (failing (WaitForCompletionRef future)))
       (\<lambda>err. Errorf ''error waiting for instance to have the updated UID: %v'' [AErr err]) (\<lambda>_.
     calc (Inr ())))))))))) s))"

section \<open>AddDefaults\<close>

definition AddDefaults :: "provider \<Rightarrow> MachineSpec \<Rightarrow> MachineSpec \<times> error option" where
  "AddDefaults p spec = (spec, None)"

section \<open>The server address of a kubeconfig\<close>

text \<open>
  \<^verbatim>\<open>strings.Replace(s, old, new, -1)\<close> on byte strings: every non-overlapping occurrence of
  \<open>old\<close>, found from left to right, becomes \<open>new\<close>; with an empty \<open>old\<close>, \<open>new\<close> is put
  before every character and at the end.
\<close>

function strings_Replace :: "string \<Rightarrow> string \<Rightarrow> string \<Rightarrow> string" where
  "strings_Replace s old new =
    (if old = [] then concat (map (\<lambda>c. new @ [c]) s) @ new
     else if s = [] then []
     else if take (length old) s = old then new @ strings_Replace (drop (length old) s) old new
     else hd s # strings_Replace (tl s) old new)"
  by pat_completeness auto
termination
  by (relation "measure (\<lambda>(s, old, new). length s)") auto

declare strings_Replace.simps [simp del]

text \<open>
  \<open>strings_Contains s substr\<close>: \<open>substr\<close> occurs in \<open>s\<close> (\<^verbatim>\<open>strings.Contains\<close> of Go), to say
  where the occurrences are that \<^verbatim>\<open>strings.Replace\<close> replaces.
\<close>

fun strings_Contains :: "string \<Rightarrow> string \<Rightarrow> bool" where
  "strings_Contains [] substr = (substr = [])"
| "strings_Contains (c # s) substr =
     (take (length substr) (c # s) = substr \<or> strings_Contains s substr)"

text \<open>
  \<^verbatim>\<open>clientcmdapi.Config\<close> with its \<^verbatim>\<open>Clusters\<close> map, of type \<^verbatim>\<open>map[string]*Cluster\<close>. A Go
  map is given as the list of its entries in the order in which \<^verbatim>\<open>range\<close> visits them, an
  order Go does not fix; the keys of the list are distinct, and \<^verbatim>\<open>len\<close> is its length (the
  \<^verbatim>\<open>nil\<close> map is the empty list). An entry is a pointer to a cluster, \<open>None\<close> when it is
  \<^verbatim>\<open>nil\<close>. The function takes a pointer to the kubeconfig, \<open>None\<close> when it is \<^verbatim>\<open>nil\<close>;
  reading through a \<^verbatim>\<open>nil\<close> pointer panics.
\<close>

record Cluster =
  Server :: string
  CertificateAuthorityData :: string

record KubeConfig =
  Clusters :: "(string \<times> Cluster option) list"

definition GetServerAddressFromKubeconfig :: "KubeConfig option \<Rightarrow> (error + string) go" where
  "GetServerAddressFromKubeconfig kubeconfig =
    (case kubeconfig of
       None \<Rightarrow> Panic
     | Some config \<Rightarrow>
        if length (Clusters config) \<noteq> 1 then
          Return (Inl (Errorf ''kubeconfig does not contain exactly one cluster, can not extract server address'' []))
        else
          (case Clusters config of
             (_, clusterConfig) # _ \<Rightarrow>
               (case clusterConfig of
                  None \<Rightarrow> Panic
                | Some cluster \<Rightarrow> Return (Inr (strings_Replace (Server cluster) ''https://'' '''')))
           | [] \<Rightarrow> Return (Inl (Errorf ''no server address found'' []))))"

section \<open>Resolution of configuration values\<close>

text \<open>
  Modelled from the spec: the methods of \<^verbatim>\<open>providerconfig.ConfigVarResolver\<close> (package
  \<^verbatim>\<open>pkg/providerconfig\<close>, not among the source files). The spec: "Resolution precedence:
  literal value if present; otherwise secret lookup", and the environment variables are
  "consulted only when the corresponding config field is unset". A value is unset when
  it has neither a literal nor a secret reference. \<open>sources\<close> holds the secrets, the
  environment and the reading of a secret's text as a boolean.
\<close>

record sources =
  secrets :: "string \<rightharpoonup> string"
  environment :: "string \<rightharpoonup> string"
  parseBool :: "string \<Rightarrow> error + bool"

definition spec_GetConfigVarStringValue :: "sources \<Rightarrow> ConfigVarString \<Rightarrow> error + string" where
  "spec_GetConfigVarStringValue src configVar =
    (if cvs_Value configVar \<noteq> '''' then Inr (cvs_Value configVar)
     else
       (case cvs_SecretKeyRef configVar of
          None \<Rightarrow> Inr ''''
        | Some ref \<Rightarrow>
           (case secrets src ref of
              None \<Rightarrow> Inl (Errorf ''error retrieving secret %q'' [AStr ref])
            | Some v \<Rightarrow> Inr v)))"

definition spec_GetConfigVarStringValueOrEnv :: "sources \<Rightarrow> ConfigVarString \<Rightarrow> string \<Rightarrow> error + string" where
  "spec_GetConfigVarStringValueOrEnv src configVar envVarName =
    (if cvs_Value configVar = '''' \<and> cvs_SecretKeyRef configVar = None then
       Inr (case environment src envVarName of None \<Rightarrow> '''' | Some v \<Rightarrow> v)
     else spec_GetConfigVarStringValue src configVar)"

definition spec_GetConfigVarBoolValue :: "sources \<Rightarrow> ConfigVarBool \<Rightarrow> error + (bool \<times> bool)" where
  "spec_GetConfigVarBoolValue src configVar =
    (case cvb_Value configVar of
       Some b \<Rightarrow> Inr (b, True)
     | None \<Rightarrow>
        (case cvb_SecretKeyRef configVar of
           None \<Rightarrow> Inr (False, False)
         | Some ref \<Rightarrow>
            (case secrets src ref of
               None \<Rightarrow> Inl (Errorf ''error retrieving secret %q'' [AStr ref])
             | Some v \<Rightarrow>
                (case parseBool src v of Inl err \<Rightarrow> Inl err | Inr b \<Rightarrow> Inr (b, True)))))"

definition specResolver :: "sources \<Rightarrow> ConfigVarResolver" where
  "specResolver src =
    \<lparr> GetConfigVarStringValue = spec_GetConfigVarStringValue src,
      GetConfigVarStringValueOrEnv = spec_GetConfigVarStringValueOrEnv src,
      GetConfigVarBoolValue = spec_GetConfigVarBoolValue src \<rparr>"


section \<open>Properties of a trace\<close>

text \<open>
  The finalizers that stand for the resource a call creates: the public IP finalizer for
  a public address of either IP version, the NIC finalizer for the network interface, the
  disks and VM finalizers for the virtual machine (whose disks the service creates with it).
\<close>

fun requiredFinalizers :: "call \<Rightarrow> string list" where
  "requiredFinalizers (CreateOrUpdatePublicIPAddress _ _ _ _ _) = [finalizerPublicIP]"
| "requiredFinalizers (CreateOrUpdateNetworkInterface _ _ _ _ _) = [finalizerNIC]"
| "requiredFinalizers (VMCreateOrUpdate _ _ _) = [finalizerDisks, finalizerVM]"
| "requiredFinalizers _ = []"

text \<open>
  \<open>committedBeforeIssued latest es\<close>: along \<open>es\<close>, every issued call finds its required
  finalizers in the finalizers of the latest commit before it; \<open>latest\<close> is the latest
  commit so far, \<open>None\<close> when the invocation has committed nothing yet.
\<close>

fun committedBeforeIssued :: "string list option \<Rightarrow> event list \<Rightarrow> bool" where
  "committedBeforeIssued latest [] = True"
| "committedBeforeIssued latest (Committed fs # es) = committedBeforeIssued (Some fs) es"
| "committedBeforeIssued latest (Issued c # es) =
     ((case latest of
         None \<Rightarrow> requiredFinalizers c = []
       | Some fs \<Rightarrow> set (requiredFinalizers c) \<subseteq> set fs)
      \<and> committedBeforeIssued latest es)"

text \<open>The calls of a trace, in the order in which they were issued.\<close>

fun issued :: "event list \<Rightarrow> call list" where
  "issued [] = []"
| "issued (Issued c # es) = c # issued es"
| "issued (Committed _ # es) = issued es"

text \<open>The resource a create-or-update call addresses, and the Machine UID it tags it with.\<close>

datatype resource = PublicIPResource string | InterfaceResource string | DiskResource string | VMResource string

fun tagging :: "call \<Rightarrow> (resource \<times> string) option" where
  "tagging (CreateOrUpdatePublicIPAddress ipName _ _ _ uid) = Some (PublicIPResource ipName, uid)"
| "tagging (CreateOrUpdateNetworkInterface ifName uid _ _ _) = Some (InterfaceResource ifName, uid)"
| "tagging (VMCreateOrUpdate _ vmName vmSpec) =
     (case spec_Tags vmSpec machineUIDTag of
        None \<Rightarrow> None
      | Some uid \<Rightarrow> Some (VMResource vmName, uid))"
| "tagging (DiskCreateOrUpdate _ diskName disk) =
     (case disk_Tags disk of
        None \<Rightarrow> None
      | Some diskTags \<Rightarrow>
         (case diskTags machineUIDTag of
            None \<Rightarrow> None
          | Some uid \<Rightarrow> Some (DiskResource diskName, uid)))"
| "tagging _ = None"



definition neverRejects :: "ProviderData \<Rightarrow> bool" where
  "neverRejects data = (\<forall>m. store_rejects data m = None)"

section \<open>Scenarios\<close>

text \<open>
  A remote service that answers every call with success and with empty data, to be
  changed field by field.
\<close>

definition emptyVM :: VirtualMachine where
  "emptyVM = \<lparr> vm_ID = None, vm_Name = None, vm_Tags = None, VirtualMachineProperties = None \<rparr>"

definition quietAzure :: azure where
  "quietAzure =
    \<lparr> getVMClient = (\<lambda>_. None),
      getInterfacesClient = (\<lambda>_. None),
      getIPClient = (\<lambda>_. None),
      getIPConfigClient = (\<lambda>_. None),
      getDisksClient = (\<lambda>_. None),
      ssh_NewKey = None,
      ifClient_Get = (\<lambda>_ _. Inr \<lparr> if_ID = None, IPConfigurations = None \<rparr>),
      ipClient_Get = (\<lambda>_ _. Inr \<lparr> IPConfiguration = Some (), IPAddress = None \<rparr>),
      ipConfigClient_Get = (\<lambda>_ _ _. Inr \<lparr> ipc_Name = None, ipc_ID = Some ''id'', PrivateIPAddress = None \<rparr>),
      vmClient_ListAll = Inr Done,
      vmClient_Get = (\<lambda>_ _. Inr emptyVM),
      vmClient_InstanceView = (\<lambda>_ _. Inr \<lparr> Statuses = None \<rparr>),
      getDisksByMachineUID = (\<lambda>_. Inr []),
      remote_publicIP = (\<lambda>_. Inr \<lparr> IPConfiguration = None, IPAddress = None \<rparr>),
      remote_interface = (\<lambda>_. Inr \<lparr> if_ID = Some ''nic-id'', IPConfigurations = None \<rparr>),
      remote_future = (\<lambda>_. Inr \<lparr> WaitForCompletionRef = None, Result = Inr emptyVM \<rparr>),
      remote_delete = (\<lambda>_. None) \<rparr>"

text \<open>
  A Machine named \<open>node1\<close> on a dual-stack network that asks for a public IP, every field
  of its configuration a literal; no secrets and no environment.
\<close>

definition literal :: "string \<Rightarrow> ConfigVarString" where
  "literal v = \<lparr> cvs_Value = v, cvs_SecretKeyRef = None \<rparr>"

definition exampleRawConfig :: RawConfig where
  "exampleRawConfig =
    \<lparr> raw_SubscriptionID = literal ''sub'',
      raw_TenantID = literal ''tenant'',
      raw_ClientID = literal ''client'',
      raw_ClientSecret = literal ''secret'',
      raw_Location = literal ''westeurope'',
      raw_ResourceGroup = literal ''rg'',
      raw_VNetResourceGroup = literal '''',
      raw_VMSize = literal ''Standard_B2s'',
      raw_VNetName = literal ''vnet'',
      raw_SubnetName = literal ''subnet'',
      raw_LoadBalancerSku = literal '''',
      raw_RouteTableName = literal '''',
      raw_AvailabilitySet = literal '''',
      raw_AssignAvailabilitySet = None,
      raw_SecurityGroupName = literal '''',
      raw_Zones = [],
      raw_ImagePlan = None,
      raw_ImageReference = None,
      raw_ImageID = literal '''',
      raw_OSDiskSize = 0,
      raw_OSDiskSKU = None,
      raw_DataDiskSize = 0,
      raw_DataDiskSKU = None,
      raw_AssignPublicIP = \<lparr> cvb_Value = Some True, cvb_SecretKeyRef = None \<rparr>,
      raw_Tags = Map.empty \<rparr>"

definition examplePConfig :: Config where
  "examplePConfig =
    \<lparr> OperatingSystem = OperatingSystemUbuntu,
      OperatingSystemSpec_Raw = Some ''{}'',
      CloudProviderSpec = Inr exampleRawConfig,
      Network_IPFamily = DualStack \<rparr>"

definition exampleProviderSpec :: ProviderSpec where
  "exampleProviderSpec = \<lparr> Value = Some (Inr examplePConfig) \<rparr>"

text \<open>The configuration that \<open>getConfig\<close> resolves for this Machine.\<close>

definition exampleConfig :: config where
  "exampleConfig =
    \<lparr> SubscriptionID = ''sub'',
      TenantID = ''tenant'',
      ClientID = ''client'',
      ClientSecret = ''secret'',
      Location = ''westeurope'',
      ResourceGroup = ''rg'',
      VNetResourceGroup = ''rg'',
      VMSize = ''Standard_B2s'',
      VNetName = ''vnet'',
      SubnetName = ''subnet'',
      LoadBalancerSku = '''',
      RouteTableName = '''',
      AvailabilitySet = '''',
      AssignAvailabilitySet = None,
      SecurityGroupName = '''',
      ImageID = '''',
      Zones = [],
      ImagePlan = None,
      ImageReference = None,
      OSDiskSize = 0,
      OSDiskSKU = None,
      DataDiskSize = 0,
      DataDiskSKU = None,
      AssignPublicIP = True,
      Tags = Map.empty \<rparr>"

definition exampleMachine :: "string list \<Rightarrow> Machine" where
  "exampleMachine finalizers =
    \<lparr> Name = ''node1'', UID = ''uid-1'', Finalizers = finalizers,
      Spec = \<lparr> ProviderSpec = exampleProviderSpec \<rparr> \<rparr>"

definition exampleProvider :: provider where
  "exampleProvider =
    \<lparr> configVarResolver =
        specResolver \<lparr> secrets = Map.empty, environment = Map.empty,
                       parseBool = (\<lambda>_. Inl (SDKError ''invalid syntax'')) \<rparr> \<rparr>"

definition exampleData :: ProviderData where
  "exampleData = \<lparr> store_rejects = (\<lambda>_. None) \<rparr>"

definition start :: "Machine \<Rightarrow> state" where
  "start m = \<lparr> machine = m, trace = [] \<rparr>"

text \<open>
  The remote service after the VM of \<open>node1\<close> was created: the VM has one network
  interface with one IP configuration, and it is running.
\<close>

definition exampleVM :: VirtualMachine where
  "exampleVM =
    \<lparr> vm_ID = Some ''/subscriptions/sub/resourceGroups/rg/providers/Microsoft.Compute/virtualMachines/node1'',
      vm_Name = Some ''node1'',
      vm_Tags = Some [machineUIDTag \<mapsto> ''uid-1''],
      VirtualMachineProperties = Some
        \<lparr> NetworkProfile = Some
            \<lparr> NetworkInterfaces = Some [\<lparr> nir_ID = Some ''/networkInterfaces/node1-netiface'' \<rparr>] \<rparr> \<rparr> \<rparr>"

definition exampleAzure :: azure where
  "exampleAzure =
    quietAzure
      \<lparr> ifClient_Get := (\<lambda>_ _. Inr \<lparr> if_ID = Some ''/networkInterfaces/node1-netiface'',
                                   IPConfigurations = Some [\<lparr> ipc_Name = Some ''ip-config-1'',
                                                             ipc_ID = None,
                                                             PrivateIPAddress = None \<rparr>] \<rparr>),
        ipClient_Get := (\<lambda>_ addrName.
           Inr \<lparr> IPConfiguration = Some (),
                 IPAddress = Some (if addrName = ''node1-netiface-pubip'' then ''20.0.0.4'' else ''2603::4'') \<rparr>),
        ipConfigClient_Get := (\<lambda>_ _ _.
           Inr \<lparr> ipc_Name = Some ''ip-config-1'', ipc_ID = Some ''id'', PrivateIPAddress = Some ''10.0.0.4'' \<rparr>),
        vmClient_ListAll := Inr (Page [exampleVM] Done),
        vmClient_Get := (\<lambda>_ _. Inr exampleVM),
        vmClient_InstanceView := (\<lambda>_ _.
           Inr \<lparr> Statuses = Some [\<lparr> status_Code = Some ''ProvisioningState/succeeded'' \<rparr>,
                                  \<lparr> status_Code = Some ''PowerState/running'' \<rparr>] \<rparr>) \<rparr>"

text \<open>
  A kubeconfig with one cluster, the scheme twice in its server address, and a kubeconfig
  whose only entry is \<^verbatim>\<open>nil\<close>.
\<close>

definition exampleCluster :: Cluster where
  "exampleCluster =
    \<lparr> Server = ''https://api.example.org:6443/proxy/https://backend'',
      CertificateAuthorityData = ''ca'' \<rparr>"

definition exampleKubeconfig :: KubeConfig where
  "exampleKubeconfig = \<lparr> Clusters = [(''prod'', Some exampleCluster)] \<rparr>"

definition nilEntryKubeconfig :: KubeConfig where
  "nilEntryKubeconfig = \<lparr> Clusters = [(''prod'', None)] \<rparr>"

text \<open>A Machine whose provider spec has no value.\<close>

definition unconfiguredMachine :: Machine where
  "unconfiguredMachine =
    \<lparr> Name = ''node0'', UID = ''uid-0'', Finalizers = [],
      Spec = \<lparr> ProviderSpec = \<lparr> Value = None \<rparr> \<rparr> \<rparr>"

text \<open>An instance view whose list of statuses is present and empty.\<close>

definition emptyStatusesAzure :: azure where
  "emptyStatusesAzure =
    exampleAzure \<lparr> vmClient_InstanceView := (\<lambda>_ _. Inr \<lparr> Statuses = Some [] \<rparr>) \<rparr>"

text \<open>An operation succeeded when it returned, and returned a value.\<close>

definition succeeded :: "(error + 'a) go \<Rightarrow> bool" where
  "succeeded r = (case r of Return (Inr _) \<Rightarrow> True | _ \<Rightarrow> False)"


text \<open>The remote service of the example, on which reading a network interface fails.\<close>

definition failingLookupAzure :: azure where
  "failingLookupAzure =
    exampleAzure \<lparr> ifClient_Get := (\<lambda>_ _. Inl (SDKError ''connection reset'')) \<rparr>"




text \<open>
  The order in which \<open>Cleanup\<close> removes finalizers, and its delete calls in their order.
\<close>

definition cleanupOrder :: "string list" where
  "cleanupOrder = [finalizerVM, finalizerDisks, finalizerNIC, finalizerPublicIP]"

definition deleteCalls :: "string \<Rightarrow> call list" where
  "deleteCalls uid =
    [DeleteVMsByMachineUID uid, DeleteDisksByMachineUID uid,
     DeleteInterfacesByMachineUID uid, DeleteIPAddressesByMachineUID uid]"

text \<open>
  The format of the error that \<open>Cleanup\<close> returns when a delete call fails, for each call
  in their order, and the Machine after the first \<open>k\<close> steps of \<open>Cleanup\<close>.
\<close>

definition cleanupFailures :: "string list" where
  "cleanupFailures =
    [''failed to delete instance for  machine %q: %v'',
     ''failed to remove disks of machine %q: %v'',
     ''failed to remove network interfaces of machine %q: %v'',
     ''failed to remove public IP addresses of machine %q: %v'']"

definition cleanedTo :: "nat \<Rightarrow> Machine \<Rightarrow> Machine" where
  "cleanedTo k m = m\<lparr> Finalizers := filter (\<lambda>f. f \<notin> set (take k cleanupOrder)) (Finalizers m) \<rparr>"

text \<open>The remote service of the example, on which deleting the disks fails.\<close>

definition failingDisksAzure :: azure where
  "failingDisksAzure =
    exampleAzure \<lparr> remote_delete := (\<lambda>c. case c of
                                         DeleteDisksByMachineUID _ \<Rightarrow> Some (SDKError ''disk is attached'')
                                       | _ \<Rightarrow> None) \<rparr>"

section \<open>MigrateUID: the calls it issues\<close>






text \<open>
  The failure, if there is one, with which the remote service answers a call; a call
  that returns a future fails when the call fails or the wait for its completion does.
  \<open>upToFailure az plan\<close> are the calls of \<open>plan\<close> up to the first that fails, that one
  included.
\<close>

fun failure :: "azure \<Rightarrow> call \<Rightarrow> error option" where
  "failure az (CreateOrUpdatePublicIPAddress ipName ipVersion sku ipAllocationMethod uid) =
     (case remote_publicIP az (CreateOrUpdatePublicIPAddress ipName ipVersion sku ipAllocationMethod uid) of
        Inl err \<Rightarrow> Some err
      | Inr _ \<Rightarrow> None)"
| "failure az (CreateOrUpdateNetworkInterface ifName uid publicIP publicIPv6 ipFamily) =
     (case remote_interface az (CreateOrUpdateNetworkInterface ifName uid publicIP publicIPv6 ipFamily) of
        Inl err \<Rightarrow> Some err
      | Inr _ \<Rightarrow> None)"
| "failure az (VMCreateOrUpdate resourceGroup vmName vmSpec) =
     (case remote_future az (VMCreateOrUpdate resourceGroup vmName vmSpec) of
        Inl err \<Rightarrow> Some err
      | Inr future \<Rightarrow> WaitForCompletionRef future)"
| "failure az (DiskCreateOrUpdate resourceGroup diskName disk) =
     (case remote_future az (DiskCreateOrUpdate resourceGroup diskName disk) of
        Inl err \<Rightarrow> Some err
      | Inr future \<Rightarrow> WaitForCompletionRef future)"
| "failure az (DeleteVMsByMachineUID uid) = remote_delete az (DeleteVMsByMachineUID uid)"
| "failure az (DeleteDisksByMachineUID uid) = remote_delete az (DeleteDisksByMachineUID uid)"
| "failure az (DeleteInterfacesByMachineUID uid) = remote_delete az (DeleteInterfacesByMachineUID uid)"
| "failure az (DeleteIPAddressesByMachineUID uid) = remote_delete az (DeleteIPAddressesByMachineUID uid)"

fun upToFailure :: "azure \<Rightarrow> call list \<Rightarrow> call list" where
  "upToFailure az [] = []"
| "upToFailure az (c # cs) = (if failure az c = None then c # upToFailure az cs else [c])"

text \<open>
  \<open>follows plan V f\<close>: the step \<open>f\<close> does not panic and does not change the Machine; when
  it succeeds it has issued the calls of \<open>plan\<close>, in order, and its value satisfies \<open>V\<close>;
  when it fails it has issued a beginning of \<open>plan\<close>. \<open>surely f\<close>: the step succeeds.
  \<open>obeys az plan stop V f\<close>: the step \<open>f\<close> issues the calls of \<open>plan\<close> up to the first that
  fails on \<open>az\<close>; it succeeds, with a value that satisfies \<open>V\<close>, when none of them fails
  and \<open>stop\<close> is false, and it returns an error otherwise (\<open>stop\<close>: behind the calls of
  \<open>plan\<close> a lookup fails).
\<close>

definition follows :: "call list \<Rightarrow> ('a \<Rightarrow> bool) \<Rightarrow> (state \<Rightarrow> (error + 'a) go \<times> state) \<Rightarrow> bool" where
  "follows plan V f =
    (\<forall>s. fst (f s) \<noteq> Panic
         \<and> machine (snd (f s)) = machine s
         \<and> (\<exists>n. issued (trace (snd (f s))) = issued (trace s) @ take n plan)
         \<and> (\<forall>v. fst (f s) = Return (Inr v) \<longrightarrow>
                issued (trace (snd (f s))) = issued (trace s) @ plan \<and> V v))"







section \<open>Facts about the helpers\<close>

lemma strings_Split_nonempty: "strings_Split s sep \<noteq> []"
  by (induction s) (auto split: list.splits)

lemma same_entries_same_length:
  assumes "distinct (map fst xs)" and "distinct (map fst ys)" and "set xs = set ys"
  shows "length xs = length ys"
proof -
  have "distinct xs" and "distinct ys"
    using assms(1,2) by (auto simp: distinct_map)
  then show ?thesis
    using assms(3) by (metis distinct_card)
qed

lemma GetServerAddress_order_independent:
  assumes "distinct (map fst (Clusters k))" and "distinct (map fst (Clusters k'))"
    and "set (Clusters k) = set (Clusters k')"
  shows "GetServerAddressFromKubeconfig (Some k) = GetServerAddressFromKubeconfig (Some k')"
proof -
  have len: "length (Clusters k) = length (Clusters k')"
    using same_entries_same_length [OF assms] .
  show ?thesis
  proof (cases "length (Clusters k) = 1")
    case True
    then obtain x where x: "Clusters k = [x]"
      by (cases "Clusters k") auto
    from True len obtain y where y: "Clusters k' = [y]"
      by (cases "Clusters k'") auto
    from x y assms(3) have "x = y" by auto
    with x y show ?thesis
      by (simp add: GetServerAddressFromKubeconfig_def)
  next
    case False
    with len show ?thesis
      by (simp add: GetServerAddressFromKubeconfig_def)
  qed
qed

text \<open>
  What \<^verbatim>\<open>strings.Replace\<close> does with a non-empty \<open>old\<close>: a string without an occurrence is
  unchanged; the first occurrence, found from the left, is replaced and the search goes
  on behind it. So a string cut into pieces at its occurrences becomes the pieces with
  \<open>new\<close> in place of \<open>old\<close>.
\<close>

lemma strings_Replace_without_occurrence:
  "old \<noteq> [] \<Longrightarrow> \<not> strings_Contains s old \<Longrightarrow> strings_Replace s old new = s"
proof (induction s)
  case Nil
  then show ?case by (simp add: strings_Replace.simps)
next
  case (Cons c s)
  then show ?case
    by (subst strings_Replace.simps) simp
qed

lemma take_before_occurrence:
  "old \<noteq> [] \<Longrightarrow> take (length old) ((c # a) @ old @ b) = take (length old) ((c # a) @ butlast old)"
proof -
  assume "old \<noteq> []"
  then have "(c # a) @ old @ b = ((c # a) @ butlast old) @ (last old # b)"
    by simp
  moreover from \<open>old \<noteq> []\<close> have "length old \<le> length ((c # a) @ butlast old)"
    by simp
  ultimately show ?thesis
    by (metis append_eq_conv_conj append_take_drop_id take_all_iff take_append diff_is_0_eq' take_0 append_Nil2)
qed

lemma strings_Replace_first_occurrence:
  "old \<noteq> [] \<Longrightarrow> \<not> strings_Contains (a @ butlast old) old \<Longrightarrow>
   strings_Replace (a @ old @ b) old new = a @ new @ strings_Replace b old new"
proof (induction a)
  case Nil
  then show ?case
    by (subst strings_Replace.simps) simp
next
  case (Cons c a)
  from Cons.prems have no: "take (length old) ((c # a) @ butlast old) \<noteq> old"
    and rest: "\<not> strings_Contains (a @ butlast old) old"
    by simp_all
  from no take_before_occurrence [OF Cons.prems(1), of c a b]
  have "take (length old) ((c # a) @ old @ b) \<noteq> old"
    by simp
  then have "strings_Replace ((c # a) @ old @ b) old new = c # strings_Replace (a @ old @ b) old new"
    using Cons.prems(1) by (subst strings_Replace.simps) simp
  with Cons.IH [OF Cons.prems(1) rest] show ?case
    by simp
qed

lemma strings_Replace_pieces:
  assumes "old \<noteq> []"
    and "\<forall>piece\<in>set pieces. \<not> strings_Contains (piece @ butlast old) old"
    and "\<not> strings_Contains rest old"
  shows "strings_Replace (concat (map (\<lambda>piece. piece @ old) pieces) @ rest) old new
           = concat (map (\<lambda>piece. piece @ new) pieces) @ rest"
  using assms(2)
proof (induction pieces)
  case Nil
  show ?case
    using strings_Replace_without_occurrence [OF assms(1,3)] by simp
next
  case (Cons piece pieces)
  then have "strings_Replace (piece @ old @ (concat (map (\<lambda>piece. piece @ old) pieces) @ rest)) old new
      = piece @ new @ strings_Replace (concat (map (\<lambda>piece. piece @ old) pieces) @ rest) old new"
    using strings_Replace_first_occurrence [OF assms(1)] by simp
  with Cons show ?case
    by simp
qed

text \<open>
  Removing the occurrences that are in the string can leave an occurrence in the result:
  the replacement does not look at what it has produced.
\<close>

lemma strings_Replace_single_pass:
  "strings_Replace ''https:https:////'' ''https://'' '''' = ''https://''"
  by (simp add: strings_Replace.simps)

text \<open>
  With a status list that is absent, or present with at least one entry, \<open>getVMStatus\<close>
  returns one of the four statuses and no error, whatever the codes are.
\<close>

lemma getVMStatus_returns_status:
  assumes "getVMClient az c = None"
    and "vmClient_InstanceView az (ResourceGroup c) vmName = Inr iv"
    and "Statuses iv \<noteq> Some []"
  shows "\<exists>st. getVMStatus az c vmName = Return (st, None)"
  using assms
  by (auto simp: getVMStatus_def Let_def split: option.splits list.splits)

text \<open>The configuration of the example Machine resolves.\<close>

lemmas example_defs = exampleProvider_def exampleProviderSpec_def examplePConfig_def
  exampleRawConfig_def literal_def specResolver_def
  spec_GetConfigVarStringValue_def spec_GetConfigVarStringValueOrEnv_def
  spec_GetConfigVarBoolValue_def providerconfigtypes_GetConfig_def azuretypes_GetConfig_def
  storageTypePtr_def

lemma getConfig_example:
  "getConfig exampleProvider exampleProviderSpec = Inr (exampleConfig, examplePConfig)"
  by (simp add: getConfig_def unless_err_def example_defs exampleConfig_def)










section \<open>The claims\<close>

text \<open>
  Claim C10. \<open>AddDefaults\<close> is a function of the spec alone: it returns the spec it was
  given and no error, so applying it twice gives what applying it once gives.
\<close>

theorem AddDefaults_idempotent:
  "AddDefaults p (fst (AddDefaults p spec)) = AddDefaults p spec
   \<and> AddDefaults p spec = (spec, None)"
  by (simp add: AddDefaults_def)

text \<open>
  Claim C6. When the provider configuration of the Machine does not resolve, \<open>Create\<close>
  returns a \<open>TerminalError\<close> whose reason is \<open>InvalidConfiguration\<close>, and the state is the
  one it started from: no finalizer was changed, no update committed and no remote call
  issued; the answer does not depend on the remote service.
\<close>

theorem Create_invalid_configuration_is_terminal:
  assumes "getConfig p (ProviderSpec (Spec (machine s))) = Inl err"
  shows "Create p az data userdata s =
           (Return (Inl (TerminalError InvalidConfigurationMachineError
                           (Sprintf ''failed to parse MachineSpec, due to %v'' [AErr err]))), s)
         \<and> InvalidConfigurationMachineError = ''InvalidConfiguration''"
  using assms by (simp add: Create_def InvalidConfigurationMachineError_def)

theorem Create_invalid_configuration_is_terminal_witness:
  "getConfig exampleProvider (ProviderSpec (Spec (machine (start unconfiguredMachine))))
     = Inl (Errorf ''machine.spec.providerconfig.value is nil'' [])
   \<and> Create exampleProvider quietAzure exampleData ''#cloud-config'' (start unconfiguredMachine)
     = (Return (Inl (TerminalError ''InvalidConfiguration''
                       (Sprintf ''failed to parse MachineSpec, due to %v''
                          [AErr (Errorf ''machine.spec.providerconfig.value is nil'' [])]))),
        start unconfiguredMachine)"
proof -
  have cfg: "getConfig exampleProvider (ProviderSpec (Spec (machine (start unconfiguredMachine))))
               = Inl (Errorf ''machine.spec.providerconfig.value is nil'' [])"
    by (simp add: getConfig_def start_def unconfiguredMachine_def)
  from Create_invalid_configuration_is_terminal [OF cfg, of quietAzure exampleData "''#cloud-config''"] cfg
  show ?thesis by simp
qed

text \<open>
  Claim C9, as the spec states it, fails. The entries of the map are pointers: with one
  entry that is \<^verbatim>\<open>nil\<close> the function reads the server through it and panics, where the
  claim has it return the server of the sole cluster; it panics on a \<^verbatim>\<open>nil\<close> kubeconfig
  as well.
\<close>

theorem GetServerAddressFromKubeconfig_nil_entry_panics:
  "length (Clusters nilEntryKubeconfig) = 1
   \<and> GetServerAddressFromKubeconfig (Some nilEntryKubeconfig) = Panic
   \<and> GetServerAddressFromKubeconfig None = Panic"
  by (simp add: GetServerAddressFromKubeconfig_def nilEntryKubeconfig_def)

text \<open>
  Claim C9, amended. For a kubeconfig that is not \<^verbatim>\<open>nil\<close>, \<open>GetServerAddressFromKubeconfig\<close>
  returns an error exactly when the map of clusters does not have one entry. With one
  entry that is not \<^verbatim>\<open>nil\<close> it returns, with no error, the server of that cluster with
  every occurrence of \<open>https://\<close> removed: for a server cut into pieces at its
  occurrences, found from the left, the result is the pieces put together. With one entry
  that is \<^verbatim>\<open>nil\<close>, and on a \<^verbatim>\<open>nil\<close> kubeconfig, it panics. Two orders of visiting the same
  entries give the same result, and the error \<open>no server address found\<close> of the last line
  is never returned.
\<close>

theorem GetServerAddressFromKubeconfig_one_cluster:
  "((\<exists>e. GetServerAddressFromKubeconfig (Some k) = Return (Inl e)) \<longleftrightarrow> length (Clusters k) \<noteq> 1)
   \<and> (Clusters k = [(name, Some c)] \<longrightarrow>
        GetServerAddressFromKubeconfig (Some k)
          = Return (Inr (strings_Replace (Server c) ''https://'' ''''))
        \<and> (\<forall>pieces rest.
              Server c = concat (map (\<lambda>piece. piece @ ''https://'') pieces) @ rest
              \<and> (\<forall>piece\<in>set pieces. \<not> strings_Contains (piece @ ''https:/'') ''https://'')
              \<and> \<not> strings_Contains rest ''https://''
              \<longrightarrow> GetServerAddressFromKubeconfig (Some k) = Return (Inr (concat pieces @ rest))))
   \<and> (Clusters k = [(name, None)] \<longrightarrow> GetServerAddressFromKubeconfig (Some k) = Panic)
   \<and> GetServerAddressFromKubeconfig None = Panic
   \<and> (distinct (map fst (Clusters k)) \<and> distinct (map fst (Clusters k'))
        \<and> set (Clusters k) = set (Clusters k') \<longrightarrow>
        GetServerAddressFromKubeconfig (Some k) = GetServerAddressFromKubeconfig (Some k'))
   \<and> GetServerAddressFromKubeconfig (Some k) \<noteq> Return (Inl (Errorf ''no server address found'' []))"
proof (intro conjI impI allI)
  show "(\<exists>e. GetServerAddressFromKubeconfig (Some k) = Return (Inl e)) \<longleftrightarrow> length (Clusters k) \<noteq> 1"
    by (auto simp: GetServerAddressFromKubeconfig_def split: list.splits option.splits)
next
  assume "Clusters k = [(name, Some c)]"
  then show "GetServerAddressFromKubeconfig (Some k)
               = Return (Inr (strings_Replace (Server c) ''https://'' ''''))"
    by (simp add: GetServerAddressFromKubeconfig_def)
next
  fix pieces rest
  assume one: "Clusters k = [(name, Some c)]"
    and cut: "Server c = concat (map (\<lambda>piece. piece @ ''https://'') pieces) @ rest
              \<and> (\<forall>piece\<in>set pieces. \<not> strings_Contains (piece @ ''https:/'') ''https://'')
              \<and> \<not> strings_Contains rest ''https://''"
  have "strings_Replace (concat (map (\<lambda>piece. piece @ ''https://'') pieces) @ rest) ''https://'' ''''
          = concat (map (\<lambda>piece. piece @ '''') pieces) @ rest"
    using cut by (intro strings_Replace_pieces) simp_all
  with one cut show "GetServerAddressFromKubeconfig (Some k) = Return (Inr (concat pieces @ rest))"
    by (simp add: GetServerAddressFromKubeconfig_def)
next
  assume "Clusters k = [(name, None)]"
  then show "GetServerAddressFromKubeconfig (Some k) = Panic"
    by (simp add: GetServerAddressFromKubeconfig_def)
next
  show "GetServerAddressFromKubeconfig None = Panic"
    by (simp add: GetServerAddressFromKubeconfig_def)
next
  assume "distinct (map fst (Clusters k)) \<and> distinct (map fst (Clusters k'))
          \<and> set (Clusters k) = set (Clusters k')"
  then show "GetServerAddressFromKubeconfig (Some k) = GetServerAddressFromKubeconfig (Some k')"
    using GetServerAddress_order_independent by blast
next
  show "GetServerAddressFromKubeconfig (Some k) \<noteq> Return (Inl (Errorf ''no server address found'' []))"
    by (auto simp: GetServerAddressFromKubeconfig_def split: list.splits option.splits)
qed

theorem GetServerAddressFromKubeconfig_one_cluster_witness:
  "Clusters exampleKubeconfig = [(''prod'', Some exampleCluster)]
   \<and> distinct (map fst (Clusters exampleKubeconfig))
   \<and> Server exampleCluster
       = concat (map (\<lambda>piece. piece @ ''https://'') ['''', ''api.example.org:6443/proxy/'']) @ ''backend''
   \<and> \<not> strings_Contains ('''' @ ''https:/'') ''https://''
   \<and> \<not> strings_Contains (''api.example.org:6443/proxy/'' @ ''https:/'') ''https://''
   \<and> \<not> strings_Contains ''backend'' ''https://''
   \<and> GetServerAddressFromKubeconfig (Some exampleKubeconfig)
       = Return (Inr ''api.example.org:6443/proxy/backend'')"
proof -
  have c: "Clusters exampleKubeconfig = [(''prod'', Some exampleCluster)]"
    by (simp add: exampleKubeconfig_def)
  have cut: "Server exampleCluster
       = concat (map (\<lambda>piece. piece @ ''https://'') ['''', ''api.example.org:6443/proxy/'']) @ ''backend''"
    by (simp add: exampleCluster_def)
  have no: "\<not> strings_Contains ('''' @ ''https:/'') ''https://''"
    "\<not> strings_Contains (''api.example.org:6443/proxy/'' @ ''https:/'') ''https://''"
    "\<not> strings_Contains ''backend'' ''https://''"
    by simp_all
  from GetServerAddressFromKubeconfig_one_cluster
         [of exampleKubeconfig "''prod''" exampleCluster exampleKubeconfig,
          THEN conjunct2, THEN conjunct1, rule_format, OF c,
          THEN conjunct2, rule_format, of "['''', ''api.example.org:6443/proxy/'']" "''backend''"]
       c cut no
  show ?thesis
    by simp
qed

text \<open>
  Claim C3. The claim holds for a status list that is absent or has an entry (lemma
  \<open>getVMStatus_returns_status\<close>), and fails for the empty list: the instance view with a
  present, empty list of statuses makes \<open>getVMStatus\<close> panic, and \<open>Get\<close> with it.
\<close>

theorem getVMStatus_empty_statuses_panics:
  "getVMStatus emptyStatusesAzure c vmName = Panic
   \<and> Get exampleProvider emptyStatusesAzure (exampleMachine []) exampleData = Panic"
proof
  show "getVMStatus emptyStatusesAzure c vmName = Panic"
    by (simp add: getVMStatus_def emptyStatusesAzure_def exampleAzure_def quietAzure_def)
next
  have c: "getConfig exampleProvider (ProviderSpec (Spec (exampleMachine []))) = Inr (exampleConfig, examplePConfig)"
    by (simp add: exampleMachine_def getConfig_example)
  have st: "getVMStatus emptyStatusesAzure exampleConfig (Name (exampleMachine [])) = Panic"
    by (simp add: getVMStatus_def emptyStatusesAzure_def exampleAzure_def quietAzure_def)
  have byuid: "getVMByUID emptyStatusesAzure exampleConfig (UID (exampleMachine [])) = Inr exampleVM"
    by (simp add: getVMByUID_def emptyStatusesAzure_def exampleAzure_def quietAzure_def
          exampleMachine_def hasMachineUID_def exampleVM_def machineUIDTag_def)
  have addrs: "\<exists>a. getVMIPAddresses emptyStatusesAzure exampleConfig exampleVM = Inr a"
    by (simp add: getVMIPAddresses_def exampleVM_def Let_def)
  then obtain a where a: "getVMIPAddresses emptyStatusesAzure exampleConfig exampleVM = Inr a"
    by blast
  show "Get exampleProvider emptyStatusesAzure (exampleMachine []) exampleData = Panic"
    by (simp add: Get_def get_def c byuid a st statusOrError_def)
qed





section \<open>Create\<close>

lemmas finalizer_defs =
  finalizerPublicIP_def finalizerPublicIPv6_def finalizerNIC_def finalizerDisks_def finalizerVM_def

lemmas create_step_defs =
  andThen_def calc_def failing_def Update_def createOrUpdatePublicIPAddress_def
  createOrUpdateNetworkInterface_def vmClient_CreateOrUpdate_def

lemmas example_eval_defs =
  getConfig_example exampleMachine_def andThen_def calc_def failing_def Update_def
  addFinalizer_def HasFinalizer_def RemoveFinalizer_def
  createOrUpdatePublicIPAddress_def createOrUpdateNetworkInterface_def vmClient_CreateOrUpdate_def
  remoteDelete_def deleteVMsByMachineUID_def deleteDisksByMachineUID_def
  deleteInterfacesByMachineUID_def deleteIPAddressesByMachineUID_def
  getStorageProfile_def getOSImageReference_def imageReferences_def osPlans_def
  getVMIPAddresses_def getNICIPAddresses_def nicIPConfiguration_def getIPAddressStrings_def
  getInternalIPAddresses_def getVMStatus_def statusOrError_def get_def getVMByUID_def
  hasMachineUID_def machineUIDTag_def ifaceName_def publicIPName_def publicIPv6Name_def
  setAddresses_def exampleAzure_def quietAzure_def exampleData_def start_def exampleVM_def
  exampleConfig_def examplePConfig_def unless_err_def succeeded_def finalizer_defs

lemma addFinalizer_has: "f \<in> set (Finalizers (addFinalizer f m))"
  by (simp add: addFinalizer_def HasFinalizer_def)

lemma addFinalizer_keeps: "g \<in> set (Finalizers m) \<Longrightarrow> g \<in> set (Finalizers (addFinalizer f m))"
  by (simp add: addFinalizer_def HasFinalizer_def)

text \<open>
  Along every run of \<open>Create\<close>, whatever fails, a call is issued only after a commit
  whose finalizers contain the finalizers of the call.
\<close>

lemma Create_committedBeforeIssued:
  "committedBeforeIssued None (trace (snd (Create p az data userdata (start m))))"
proof (cases "getConfig p (ProviderSpec (Spec m))")
  case (Inl e)
  then show ?thesis
    by (simp add: Create_def start_def)
next
  case (Inr cp)
  obtain config providerCfg where cp: "cp = (config, providerCfg)"
    by (cases cp)
  show ?thesis
  proof (cases "AssignPublicIP config")
    case True
    note assign = this
    show ?thesis
    proof (cases "Network_IPFamily providerCfg = DualStack")
      case True
      show ?thesis
        using Inr cp assign True unfolding Create_def start_def
        by (simp add: create_step_defs Let_def addFinalizer_has addFinalizer_keeps
              split del: if_split split: sum.split option.split prod.split go.split)
    next
      case False
      show ?thesis
        using Inr cp assign False unfolding Create_def start_def
        by (simp add: create_step_defs Let_def addFinalizer_has addFinalizer_keeps
              split del: if_split split: sum.split option.split prod.split go.split)
    qed
  next
    case False
    show ?thesis
      using Inr cp False unfolding Create_def start_def
      by (simp add: create_step_defs Let_def addFinalizer_has addFinalizer_keeps
            split del: if_split split: sum.split option.split prod.split go.split)
  qed
qed

text \<open>
  A successful \<open>Create\<close> of a Machine without finalizers, with a public IP on a dual-stack
  network: the finalizers it leaves, and the resources it addressed, in order, each tagged
  with the UID of the Machine.
\<close>

lemma Create_dual_stack_success:
  assumes "getConfig p (ProviderSpec (Spec m)) = Inr (config, providerCfg)"
    and "AssignPublicIP config" and "Network_IPFamily providerCfg = DualStack"
    and "Finalizers m = []"
    and "succeeded (fst (Create p az data userdata (start m)))"
  shows "Finalizers (machine (snd (Create p az data userdata (start m))))
           = [finalizerPublicIP, finalizerNIC, finalizerDisks, finalizerVM]
         \<and> map tagging (issued (trace (snd (Create p az data userdata (start m)))))
           = [Some (PublicIPResource (publicIPName (ifaceName (Name m))), UID m),
              Some (PublicIPResource (publicIPv6Name (ifaceName (Name m))), UID m),
              Some (InterfaceResource (ifaceName (Name m)), UID m),
              Some (VMResource (Name m), UID m)]"
  using assms unfolding Create_def start_def
  by (simp add: create_step_defs Let_def succeeded_def addFinalizer_def HasFinalizer_def
        finalizer_defs
      split del: if_split
      split: sum.split_asm option.split_asm prod.split_asm go.split_asm
             sum.split option.split prod.split go.split)

lemma Create_example_succeeds:
  "succeeded (fst (Create exampleProvider exampleAzure exampleData ''#cloud-config''
                     (start (exampleMachine []))))"
  by (simp add: Create_def example_eval_defs Let_def)

lemma Create_example_finalizers:
  "Finalizers (machine (snd (Create exampleProvider exampleAzure exampleData ''#cloud-config''
                               (start (exampleMachine [])))))
     = [finalizerPublicIP, finalizerNIC, finalizerDisks, finalizerVM]"
  by (simp add: Create_def example_eval_defs Let_def)

text \<open>
  On a remote service where reading a network interface fails, \<open>Create\<close> reports success
  all the same, with the \<^verbatim>\<open>nil\<close> address map.
\<close>

lemma Create_succeeds_when_address_lookup_fails:
  "fst (Create exampleProvider failingLookupAzure exampleData ''#cloud-config''
          (start (exampleMachine [])))
     = Return (Inr \<lparr> vm = exampleVM, ipAddresses = None, status = StatusRunning \<rparr>)"
  by (simp add: Create_def example_eval_defs failingLookupAzure_def Let_def)

text \<open>
  Claim C1, as the spec states it, fails: \<open>Create\<close> never adds the finalizer of the public
  IPv6 address. The Machine of the example asks for a public IP on a dual-stack network;
  \<open>Create\<close> succeeds and leaves four finalizers, not the five of the claim.
\<close>

theorem Create_adds_no_PublicIPv6_finalizer:
  "getConfig exampleProvider (ProviderSpec (Spec (exampleMachine [])))
     = Inr (exampleConfig, examplePConfig)
   \<and> AssignPublicIP exampleConfig
   \<and> Network_IPFamily examplePConfig = DualStack
   \<and> succeeded (fst (Create exampleProvider exampleAzure exampleData ''#cloud-config''
                        (start (exampleMachine []))))
   \<and> Finalizers (machine (snd (Create exampleProvider exampleAzure exampleData ''#cloud-config''
                                  (start (exampleMachine [])))))
       \<noteq> [finalizerPublicIP, finalizerPublicIPv6, finalizerNIC, finalizerDisks, finalizerVM]"
proof -
  have cfg: "getConfig exampleProvider (ProviderSpec (Spec (exampleMachine [])))
               = Inr (exampleConfig, examplePConfig)"
    by (simp add: exampleMachine_def getConfig_example)
  have flags: "AssignPublicIP exampleConfig" "Network_IPFamily examplePConfig = DualStack"
    by (simp_all add: exampleConfig_def examplePConfig_def)
  have "[finalizerPublicIP, finalizerNIC, finalizerDisks, finalizerVM]
          \<noteq> [finalizerPublicIP, finalizerPublicIPv6, finalizerNIC, finalizerDisks, finalizerVM]"
    by simp
  then have differ:
    "Finalizers (machine (snd (Create exampleProvider exampleAzure exampleData ''#cloud-config''
                                  (start (exampleMachine [])))))
       \<noteq> [finalizerPublicIP, finalizerPublicIPv6, finalizerNIC, finalizerDisks, finalizerVM]"
    by (simp add: Create_example_finalizers)
  from cfg flags Create_example_succeeds differ show ?thesis
    by (intro conjI)
qed

text \<open>
  Claim C1, amended. During \<open>Create\<close> every create-or-update call is issued after a commit
  of the Machine whose finalizers cover the resource of the call: the public IP finalizer
  for the public IPv4 address and, on a dual-stack network, for the public IPv6 address as
  well, the NIC finalizer for the network interface, the disks and VM finalizers for the
  virtual machine. For a Machine without finalizers that asks for a public IP on a
  dual-stack network, a successful \<open>Create\<close> addresses the public IPv4 address, the public
  IPv6 address, the network interface and the VM in this order, each under its name
  derived from the Machine and tagged with its UID, and leaves exactly the finalizers
  public IP, NIC, disks, VM.
\<close>

theorem Create_commits_finalizers_before_calls:
  "committedBeforeIssued None (trace (snd (Create p az data userdata (start m))))
   \<and> (getConfig p (ProviderSpec (Spec m)) = Inr (config, providerCfg)
       \<and> AssignPublicIP config \<and> Network_IPFamily providerCfg = DualStack
       \<and> Finalizers m = []
       \<and> succeeded (fst (Create p az data userdata (start m)))
      \<longrightarrow> Finalizers (machine (snd (Create p az data userdata (start m))))
            = [finalizerPublicIP, finalizerNIC, finalizerDisks, finalizerVM]
          \<and> map tagging (issued (trace (snd (Create p az data userdata (start m)))))
            = [Some (PublicIPResource (publicIPName (ifaceName (Name m))), UID m),
               Some (PublicIPResource (publicIPv6Name (ifaceName (Name m))), UID m),
               Some (InterfaceResource (ifaceName (Name m)), UID m),
               Some (VMResource (Name m), UID m)])"
  using Create_committedBeforeIssued Create_dual_stack_success by blast

theorem Create_commits_finalizers_before_calls_witness:
  "getConfig exampleProvider (ProviderSpec (Spec (exampleMachine [])))
     = Inr (exampleConfig, examplePConfig)
   \<and> AssignPublicIP exampleConfig \<and> Network_IPFamily examplePConfig = DualStack
   \<and> Finalizers (exampleMachine []) = []
   \<and> succeeded (fst (Create exampleProvider exampleAzure exampleData ''#cloud-config''
                        (start (exampleMachine []))))
   \<and> committedBeforeIssued None
        (trace (snd (Create exampleProvider exampleAzure exampleData ''#cloud-config''
                       (start (exampleMachine [])))))
   \<and> Finalizers (machine (snd (Create exampleProvider exampleAzure exampleData ''#cloud-config''
                                  (start (exampleMachine [])))))
       = [finalizerPublicIP, finalizerNIC, finalizerDisks, finalizerVM]
   \<and> map tagging (issued (trace (snd (Create exampleProvider exampleAzure exampleData
                                         ''#cloud-config'' (start (exampleMachine []))))))
       = [Some (PublicIPResource ''node1-netiface-pubip'', ''uid-1''),
          Some (PublicIPResource ''node1-netiface-pubipv6'', ''uid-1''),
          Some (InterfaceResource ''node1-netiface'', ''uid-1''),
          Some (VMResource ''node1'', ''uid-1'')]"
proof -
  have cfg: "getConfig exampleProvider (ProviderSpec (Spec (exampleMachine [])))
               = Inr (exampleConfig, examplePConfig)"
    by (simp add: exampleMachine_def getConfig_example)
  have flags: "AssignPublicIP exampleConfig" "Network_IPFamily examplePConfig = DualStack"
    "Finalizers (exampleMachine []) = []"
    by (simp_all add: exampleConfig_def examplePConfig_def exampleMachine_def)
  from Create_commits_finalizers_before_calls
         [of exampleProvider exampleAzure exampleData "''#cloud-config''" "exampleMachine []"
             exampleConfig examplePConfig]
       cfg flags Create_example_succeeds
  show ?thesis
    by (simp add: exampleMachine_def ifaceName_def publicIPName_def publicIPv6Name_def)
qed

section \<open>Cleanup\<close>

lemmas cleanup_defs =
  Cleanup_def andThen_def calc_def failing_def Update_def remoteDelete_def
  deleteVMsByMachineUID_def deleteDisksByMachineUID_def deleteInterfacesByMachineUID_def
  deleteIPAddressesByMachineUID_def RemoveFinalizer_def

lemma issued_append: "issued (es @ es') = issued es @ issued es'"
  by (induction es rule: issued.induct) auto

text \<open>When \<open>get\<close> finds the instance or reports it missing, the configuration resolved.\<close>

lemma get_answer_has_config:
  assumes "get p az m = Return (Inr v) \<or> get p az m = Return (Inl ErrInstanceNotFound)"
  shows "\<exists>config pc. getConfig p (ProviderSpec (Spec m)) = Inr (config, pc)"
  using assms by (cases "getConfig p (ProviderSpec (Spec m))") (auto simp: get_def)

text \<open>
  The five ways in which \<open>Cleanup\<close> ends when the instance is found: one of the four steps
  fails, at its delete call or at its update, or all four are done.
\<close>

lemma Cleanup_cases:
  fixes s p az data
  defines "r \<equiv> fst (Cleanup p az data s)" and "s' \<equiv> snd (Cleanup p az data s)"
  defines "uid \<equiv> UID (machine s)" and "fs \<equiv> Finalizers (machine s)"
  assumes found: "get p az (machine s) = Return (Inr v)"
  shows "((\<exists>err. r = Return (Inl err)) \<and> machine s' = machine s
            \<and> issued (trace s') = issued (trace s) @ [DeleteVMsByMachineUID uid])
       \<or> ((\<exists>err. r = Return (Inl err))
            \<and> machine s' = (machine s)\<lparr> Finalizers := filter (\<lambda>f. f \<noteq> finalizerVM) fs \<rparr>
            \<and> issued (trace s') = issued (trace s)
                 @ [DeleteVMsByMachineUID uid, DeleteDisksByMachineUID uid])
       \<or> ((\<exists>err. r = Return (Inl err))
            \<and> machine s' = (machine s)\<lparr> Finalizers :=
                 filter (\<lambda>f. f \<noteq> finalizerVM \<and> f \<noteq> finalizerDisks) fs \<rparr>
            \<and> issued (trace s') = issued (trace s)
                 @ [DeleteVMsByMachineUID uid, DeleteDisksByMachineUID uid,
                    DeleteInterfacesByMachineUID uid])
       \<or> ((\<exists>err. r = Return (Inl err))
            \<and> machine s' = (machine s)\<lparr> Finalizers :=
                 filter (\<lambda>f. f \<noteq> finalizerVM \<and> f \<noteq> finalizerDisks \<and> f \<noteq> finalizerNIC) fs \<rparr>
            \<and> issued (trace s') = issued (trace s) @ deleteCalls uid)
       \<or> (r = Return (Inr True)
            \<and> machine s' = (machine s)\<lparr> Finalizers :=
                 filter (\<lambda>f. f \<noteq> finalizerVM \<and> f \<noteq> finalizerDisks \<and> f \<noteq> finalizerNIC
                           \<and> f \<noteq> finalizerPublicIP) fs \<rparr>
            \<and> issued (trace s') = issued (trace s) @ deleteCalls uid)"
proof -
  obtain config pc where cfg: "getConfig p (ProviderSpec (Spec (machine s))) = Inr (config, pc)"
    using get_answer_has_config found by blast
  show ?thesis
    unfolding r_def s'_def uid_def fs_def
    using cfg found
    by (simp add: cleanup_defs issued_append deleteCalls_def Let_def split: option.split)
qed

lemma Cleanup_all_succeed:
  assumes found: "get p az (machine s) = Return (Inr v)"
    and "\<forall>c. remote_delete az c = None" and "neverRejects data"
  shows "fst (Cleanup p az data s) = Return (Inr True)"
proof -
  obtain config pc where cfg: "getConfig p (ProviderSpec (Spec (machine s))) = Inr (config, pc)"
    using get_answer_has_config found by blast
  show ?thesis
    using cfg assms by (simp add: cleanup_defs neverRejects_def Let_def)
qed

lemma Cleanup_progress:
  assumes found: "get p az (machine s) = Return (Inr v)"
  shows "\<exists>k\<le>4.
           machine (snd (Cleanup p az data s))
             = (machine s)\<lparr> Finalizers :=
                 filter (\<lambda>f. f \<notin> set (take k cleanupOrder)) (Finalizers (machine s)) \<rparr>
           \<and> issued (trace (snd (Cleanup p az data s)))
               = issued (trace s) @ take (Suc k) (deleteCalls (UID (machine s)))
           \<and> (k = 4 \<longrightarrow> fst (Cleanup p az data s) = Return (Inr True))
           \<and> (k < 4 \<longrightarrow> (\<exists>err. fst (Cleanup p az data s) = Return (Inl err)))"
proof -
  have same: "(machine s)\<lparr> Finalizers := Finalizers (machine s) \<rparr> = machine s"
    by simp
  from Cleanup_cases [OF found, of data]
  consider
      (vm) "(\<exists>err. fst (Cleanup p az data s) = Return (Inl err))"
           "machine (snd (Cleanup p az data s)) = machine s"
           "issued (trace (snd (Cleanup p az data s)))
              = issued (trace s) @ [DeleteVMsByMachineUID (UID (machine s))]"
    | (disks) "(\<exists>err. fst (Cleanup p az data s) = Return (Inl err))"
           "machine (snd (Cleanup p az data s))
              = (machine s)\<lparr> Finalizers := filter (\<lambda>f. f \<noteq> finalizerVM) (Finalizers (machine s)) \<rparr>"
           "issued (trace (snd (Cleanup p az data s)))
              = issued (trace s) @ [DeleteVMsByMachineUID (UID (machine s)),
                                    DeleteDisksByMachineUID (UID (machine s))]"
    | (nic) "(\<exists>err. fst (Cleanup p az data s) = Return (Inl err))"
           "machine (snd (Cleanup p az data s))
              = (machine s)\<lparr> Finalizers :=
                  filter (\<lambda>f. f \<noteq> finalizerVM \<and> f \<noteq> finalizerDisks) (Finalizers (machine s)) \<rparr>"
           "issued (trace (snd (Cleanup p az data s)))
              = issued (trace s) @ [DeleteVMsByMachineUID (UID (machine s)),
                                    DeleteDisksByMachineUID (UID (machine s)),
                                    DeleteInterfacesByMachineUID (UID (machine s))]"
    | (ip) "(\<exists>err. fst (Cleanup p az data s) = Return (Inl err))"
           "machine (snd (Cleanup p az data s))
              = (machine s)\<lparr> Finalizers :=
                  filter (\<lambda>f. f \<noteq> finalizerVM \<and> f \<noteq> finalizerDisks \<and> f \<noteq> finalizerNIC)
                    (Finalizers (machine s)) \<rparr>"
           "issued (trace (snd (Cleanup p az data s)))
              = issued (trace s) @ deleteCalls (UID (machine s))"
    | (finished) "fst (Cleanup p az data s) = Return (Inr True)"
           "machine (snd (Cleanup p az data s))
              = (machine s)\<lparr> Finalizers :=
                  filter (\<lambda>f. f \<noteq> finalizerVM \<and> f \<noteq> finalizerDisks \<and> f \<noteq> finalizerNIC
                            \<and> f \<noteq> finalizerPublicIP) (Finalizers (machine s)) \<rparr>"
           "issued (trace (snd (Cleanup p az data s)))
              = issued (trace s) @ deleteCalls (UID (machine s))"
    by blast
  then show ?thesis
  proof cases
    case vm
    then show ?thesis
      by (intro exI [of _ 0]) (simp add: same deleteCalls_def)
  next
    case disks
    then show ?thesis
      by (intro exI [of _ 1]) (simp add: cleanupOrder_def deleteCalls_def)
  next
    case nic
    then show ?thesis
      by (intro exI [of _ 2]) (simp add: cleanupOrder_def deleteCalls_def numeral_2_eq_2)
  next
    case ip
    then show ?thesis
      by (intro exI [of _ 3]) (simp add: cleanupOrder_def deleteCalls_def numeral_3_eq_3)
  next
    case finished
    then show ?thesis
      by (intro exI [of _ 4]) (simp add: cleanupOrder_def deleteCalls_def)
  qed
qed

text \<open>
  The step of \<open>Cleanup\<close> that fails first decides the result: after the steps before it,
  a delete call that fails gives its error in the format of the step, and an update that
  is rejected gives the error of the store; the Machine is the one after the steps before,
  and the delete calls up to the one of the failed step were issued.
\<close>

lemma Cleanup_first_failure:
  assumes found: "get p az (machine s) = Return (Inr v)"
    and k: "k < 4"
    and before: "\<forall>j<k. remote_delete az (deleteCalls (UID (machine s)) ! j) = None
                       \<and> store_rejects data (cleanedTo (Suc j) (machine s)) = None"
  shows "(remote_delete az (deleteCalls (UID (machine s)) ! k) = Some err \<longrightarrow>
            Cleanup p az data s
              = (Return (Inl (Errorf (cleanupFailures ! k) [AStr (Name (machine s)), AErr err])),
                 snd (Cleanup p az data s)))
       \<and> (remote_delete az (deleteCalls (UID (machine s)) ! k) = None
            \<and> store_rejects data (cleanedTo (Suc k) (machine s)) = Some err \<longrightarrow>
            Cleanup p az data s = (Return (Inl err), snd (Cleanup p az data s)))
       \<and> (remote_delete az (deleteCalls (UID (machine s)) ! k) \<noteq> None
            \<or> store_rejects data (cleanedTo (Suc k) (machine s)) \<noteq> None \<longrightarrow>
            machine (snd (Cleanup p az data s)) = cleanedTo k (machine s)
            \<and> issued (trace (snd (Cleanup p az data s)))
                = issued (trace s) @ take (Suc k) (deleteCalls (UID (machine s))))"
proof -
  obtain config pc where cfg: "getConfig p (ProviderSpec (Spec (machine s))) = Inr (config, pc)"
    using get_answer_has_config found by blast
  from k consider "k = 0" | "k = 1" | "k = 2" | "k = 3"
    by linarith
  then show ?thesis
  proof cases
    case 1
    show ?thesis
      unfolding 1 using cfg found
      by (auto simp: cleanup_defs issued_append deleteCalls_def cleanupFailures_def cleanedTo_def
            cleanupOrder_def Let_def split: option.splits)
  next
    case 2
    from before [rule_format, of 0] 2
    have b: "remote_delete az (DeleteVMsByMachineUID (UID (machine s))) = None"
      "store_rejects data (cleanedTo (Suc 0) (machine s)) = None"
      by (simp_all add: deleteCalls_def)
    show ?thesis
      unfolding 2 using cfg found b
      by (auto simp: cleanup_defs issued_append deleteCalls_def cleanupFailures_def cleanedTo_def
            cleanupOrder_def Let_def split: option.splits)
  next
    case 3
    from before [rule_format, of 0] before [rule_format, of 1] 3
    have b: "remote_delete az (DeleteVMsByMachineUID (UID (machine s))) = None"
      "store_rejects data (cleanedTo (Suc 0) (machine s)) = None"
      "remote_delete az (DeleteDisksByMachineUID (UID (machine s))) = None"
      "store_rejects data (cleanedTo (Suc 1) (machine s)) = None"
      by (simp_all add: deleteCalls_def)
    show ?thesis
      unfolding 3 using cfg found b
      by (auto simp: cleanup_defs issued_append deleteCalls_def cleanupFailures_def cleanedTo_def
            cleanupOrder_def numeral_2_eq_2 Let_def split: option.splits)
  next
    case 4
    from before [rule_format, of 0] before [rule_format, of 1] before [rule_format, of 2] 4
    have b: "remote_delete az (DeleteVMsByMachineUID (UID (machine s))) = None"
      "store_rejects data (cleanedTo (Suc 0) (machine s)) = None"
      "remote_delete az (DeleteDisksByMachineUID (UID (machine s))) = None"
      "store_rejects data (cleanedTo (Suc 1) (machine s)) = None"
      "remote_delete az (DeleteInterfacesByMachineUID (UID (machine s))) = None"
      "store_rejects data (cleanedTo (Suc 2) (machine s)) = None"
      by (simp_all add: deleteCalls_def)
    show ?thesis
      unfolding 4 using cfg found b
      by (auto simp: cleanup_defs issued_append deleteCalls_def cleanupFailures_def cleanedTo_def
            cleanupOrder_def numeral_2_eq_2 numeral_3_eq_3 Let_def split: option.splits)
  qed
qed

lemma Cleanup_no_failure:
  assumes found: "get p az (machine s) = Return (Inr v)"
    and all: "\<forall>j<4. remote_delete az (deleteCalls (UID (machine s)) ! j) = None
                       \<and> store_rejects data (cleanedTo (Suc j) (machine s)) = None"
  shows "fst (Cleanup p az data s) = Return (Inr True)
       \<and> machine (snd (Cleanup p az data s)) = cleanedTo 4 (machine s)
       \<and> issued (trace (snd (Cleanup p az data s)))
           = issued (trace s) @ deleteCalls (UID (machine s))"
proof -
  obtain config pc where cfg: "getConfig p (ProviderSpec (Spec (machine s))) = Inr (config, pc)"
    using get_answer_has_config found by blast
  from all [rule_format, of 0] all [rule_format, of 1] all [rule_format, of 2] all [rule_format, of 3]
  have b: "remote_delete az (DeleteVMsByMachineUID (UID (machine s))) = None"
      "store_rejects data (cleanedTo (Suc 0) (machine s)) = None"
      "remote_delete az (DeleteDisksByMachineUID (UID (machine s))) = None"
      "store_rejects data (cleanedTo (Suc 1) (machine s)) = None"
      "remote_delete az (DeleteInterfacesByMachineUID (UID (machine s))) = None"
      "store_rejects data (cleanedTo (Suc 2) (machine s)) = None"
      "remote_delete az (DeleteIPAddressesByMachineUID (UID (machine s))) = None"
      "store_rejects data (cleanedTo (Suc 3) (machine s)) = None"
    by (simp_all add: deleteCalls_def numeral_2_eq_2 numeral_3_eq_3)
  show ?thesis
    using cfg found b
    by (simp add: cleanup_defs issued_append deleteCalls_def cleanedTo_def
          cleanupOrder_def numeral_2_eq_2 numeral_3_eq_3 Let_def)
qed

text \<open>When \<open>get\<close> reports the instance missing, \<open>Cleanup\<close> is the removal of the VM finalizer.\<close>

lemma Cleanup_instance_not_found:
  assumes "get p az (machine s) = Return (Inl ErrInstanceNotFound)"
  shows "Cleanup p az data s =
    (case store_rejects data
            ((machine s)\<lparr> Finalizers := RemoveFinalizer (Finalizers (machine s)) finalizerVM \<rparr>) of
       Some err \<Rightarrow> (Return (Inl err), s)
     | None \<Rightarrow>
        (Return (Inr True),
         s\<lparr> machine := (machine s)\<lparr> Finalizers := RemoveFinalizer (Finalizers (machine s)) finalizerVM \<rparr>,
            trace := trace s @ [Committed (RemoveFinalizer (Finalizers (machine s)) finalizerVM)] \<rparr>))"
proof -
  obtain config pc where cfg: "getConfig p (ProviderSpec (Spec (machine s))) = Inr (config, pc)"
    using get_answer_has_config assms by blast
  show ?thesis
    using cfg assms
    by (simp add: Cleanup_def RemoveFinalizerOnInstanceNotFound_def andThen_def calc_def
          Update_def Let_def split: option.split)
qed

text \<open>
  Claim C2, as the spec states it, fails in two ways. \<open>Cleanup\<close> never removes the
  finalizer of the public IPv6 address: with the five lifecycle finalizers on the Machine
  and every call succeeding it reports done and leaves that finalizer. And a call that
  follows a failed one does not resume: after the VM was deleted and the deletion of the
  disks failed, the instance is no longer found, and the next \<open>Cleanup\<close> reports done
  with the finalizers of the public IP, the NIC and the disks still on the Machine.
\<close>

theorem Cleanup_done_with_finalizers_left:
  "fst (Cleanup exampleProvider exampleAzure exampleData
          (start (exampleMachine [finalizerPublicIP, finalizerPublicIPv6, finalizerNIC,
                                  finalizerDisks, finalizerVM])))
     = Return (Inr True)
   \<and> Finalizers (machine (snd (Cleanup exampleProvider exampleAzure exampleData
          (start (exampleMachine [finalizerPublicIP, finalizerPublicIPv6, finalizerNIC,
                                  finalizerDisks, finalizerVM])))))
     = [finalizerPublicIPv6]
   \<and> Finalizers (machine (snd (Cleanup exampleProvider failingDisksAzure exampleData
          (start (exampleMachine [finalizerPublicIP, finalizerNIC, finalizerDisks, finalizerVM])))))
     = [finalizerPublicIP, finalizerNIC, finalizerDisks]
   \<and> fst (Cleanup exampleProvider quietAzure exampleData
          (snd (Cleanup exampleProvider failingDisksAzure exampleData
             (start (exampleMachine [finalizerPublicIP, finalizerNIC, finalizerDisks, finalizerVM])))))
     = Return (Inr True)
   \<and> Finalizers (machine (snd (Cleanup exampleProvider quietAzure exampleData
          (snd (Cleanup exampleProvider failingDisksAzure exampleData
             (start (exampleMachine [finalizerPublicIP, finalizerNIC, finalizerDisks, finalizerVM])))))))
     = [finalizerPublicIP, finalizerNIC, finalizerDisks]"
  by (simp add: Cleanup_def RemoveFinalizerOnInstanceNotFound_def failingDisksAzure_def
        example_eval_defs Let_def)

text \<open>
  Claim C2, amended. On the path where \<open>Get\<close> finds the instance, \<open>Cleanup\<close> works through
  four steps in the order VM, disks, network interfaces, public IP addresses, each a
  delete call by Machine UID followed by the removal of the step's finalizer. It stops at
  the first failure and then returns an error, not done: when the steps before step \<open>k\<close>
  went through and the delete call of step \<open>k\<close> fails, it returns that error in the format
  of the step, and when the update of step \<open>k\<close> is rejected, the error of the store; in
  both cases the finalizers of the steps completed before are removed, those of the
  failed step and of all later steps are untouched, and no later delete call was issued.
  It reports done only after all four steps, when none of the VM, disks, NIC and public
  IP finalizers is left (the public IPv6 finalizer is not handled), and it does so when
  no step fails. A following call that finds the instance issues the delete calls again
  from the first one, and reports done when no call fails.
\<close>

theorem Cleanup_stops_at_first_failure:
  assumes "succeeded (get p az (machine s))"
  shows "(\<exists>k\<le>4.
            machine (snd (Cleanup p az data s))
              = (machine s)\<lparr> Finalizers :=
                  filter (\<lambda>f. f \<notin> set (take k cleanupOrder)) (Finalizers (machine s)) \<rparr>
            \<and> issued (trace (snd (Cleanup p az data s)))
                = issued (trace s) @ take (Suc k) (deleteCalls (UID (machine s)))
            \<and> (k = 4 \<longrightarrow> fst (Cleanup p az data s) = Return (Inr True))
            \<and> (k < 4 \<longrightarrow> (\<exists>err. fst (Cleanup p az data s) = Return (Inl err))))
         \<and> (fst (Cleanup p az data s) = Return (Inr True) \<longrightarrow>
              set cleanupOrder \<inter> set (Finalizers (machine (snd (Cleanup p az data s)))) = {})
         \<and> ((\<forall>c. remote_delete az c = None) \<and> neverRejects data \<longrightarrow>
              fst (Cleanup p az data s) = Return (Inr True))
         \<and> (\<forall>k<4.
              (\<forall>j<k. remote_delete az (deleteCalls (UID (machine s)) ! j) = None
                     \<and> store_rejects data (cleanedTo (Suc j) (machine s)) = None) \<longrightarrow>
              (\<forall>err. remote_delete az (deleteCalls (UID (machine s)) ! k) = Some err \<longrightarrow>
                 fst (Cleanup p az data s)
                   = Return (Inl (Errorf (cleanupFailures ! k) [AStr (Name (machine s)), AErr err]))
                 \<and> machine (snd (Cleanup p az data s)) = cleanedTo k (machine s)
                 \<and> issued (trace (snd (Cleanup p az data s)))
                     = issued (trace s) @ take (Suc k) (deleteCalls (UID (machine s))))
              \<and> (\<forall>err. remote_delete az (deleteCalls (UID (machine s)) ! k) = None
                        \<and> store_rejects data (cleanedTo (Suc k) (machine s)) = Some err \<longrightarrow>
                 fst (Cleanup p az data s) = Return (Inl err)
                 \<and> machine (snd (Cleanup p az data s)) = cleanedTo k (machine s)
                 \<and> issued (trace (snd (Cleanup p az data s)))
                     = issued (trace s) @ take (Suc k) (deleteCalls (UID (machine s)))))
         \<and> ((\<forall>j<4. remote_delete az (deleteCalls (UID (machine s)) ! j) = None
                    \<and> store_rejects data (cleanedTo (Suc j) (machine s)) = None) \<longrightarrow>
              fst (Cleanup p az data s) = Return (Inr True)
              \<and> machine (snd (Cleanup p az data s)) = cleanedTo 4 (machine s)
              \<and> issued (trace (snd (Cleanup p az data s)))
                  = issued (trace s) @ deleteCalls (UID (machine s)))"
proof -
  from assms obtain v where found: "get p az (machine s) = Return (Inr v)"
    by (auto simp: succeeded_def split: go.splits sum.splits)
  from Cleanup_progress [OF found, of data] obtain k where k: "k \<le> 4"
    "machine (snd (Cleanup p az data s))
       = (machine s)\<lparr> Finalizers :=
           filter (\<lambda>f. f \<notin> set (take k cleanupOrder)) (Finalizers (machine s)) \<rparr>"
    "issued (trace (snd (Cleanup p az data s)))
       = issued (trace s) @ take (Suc k) (deleteCalls (UID (machine s)))"
    "k = 4 \<longrightarrow> fst (Cleanup p az data s) = Return (Inr True)"
    "k < 4 \<longrightarrow> (\<exists>err. fst (Cleanup p az data s) = Return (Inl err))"
    by blast
  have first: "\<exists>k\<le>4.
            machine (snd (Cleanup p az data s))
              = (machine s)\<lparr> Finalizers :=
                  filter (\<lambda>f. f \<notin> set (take k cleanupOrder)) (Finalizers (machine s)) \<rparr>
            \<and> issued (trace (snd (Cleanup p az data s)))
                = issued (trace s) @ take (Suc k) (deleteCalls (UID (machine s)))
            \<and> (k = 4 \<longrightarrow> fst (Cleanup p az data s) = Return (Inr True))
            \<and> (k < 4 \<longrightarrow> (\<exists>err. fst (Cleanup p az data s) = Return (Inl err)))"
    using k by blast
  have second: "fst (Cleanup p az data s) = Return (Inr True) \<longrightarrow>
              set cleanupOrder \<inter> set (Finalizers (machine (snd (Cleanup p az data s)))) = {}"
  proof
    assume ok: "fst (Cleanup p az data s) = Return (Inr True)"
    have "k = 4"
    proof (rule ccontr)
      assume "k \<noteq> 4"
      with k(1) have "k < 4" by simp
      with k(5) ok show False by auto
    qed
    then have "Finalizers (machine (snd (Cleanup p az data s)))
                 = filter (\<lambda>f. f \<notin> set cleanupOrder) (Finalizers (machine s))"
      using k(2) by (simp add: cleanupOrder_def)
    then show "set cleanupOrder \<inter> set (Finalizers (machine (snd (Cleanup p az data s)))) = {}"
      by auto
  qed
  have third: "(\<forall>c. remote_delete az c = None) \<and> neverRejects data \<longrightarrow>
              fst (Cleanup p az data s) = Return (Inr True)"
    using Cleanup_all_succeed [OF found] by blast
  have fourth: "\<forall>k<4.
              (\<forall>j<k. remote_delete az (deleteCalls (UID (machine s)) ! j) = None
                     \<and> store_rejects data (cleanedTo (Suc j) (machine s)) = None) \<longrightarrow>
              (\<forall>err. remote_delete az (deleteCalls (UID (machine s)) ! k) = Some err \<longrightarrow>
                 fst (Cleanup p az data s)
                   = Return (Inl (Errorf (cleanupFailures ! k) [AStr (Name (machine s)), AErr err]))
                 \<and> machine (snd (Cleanup p az data s)) = cleanedTo k (machine s)
                 \<and> issued (trace (snd (Cleanup p az data s)))
                     = issued (trace s) @ take (Suc k) (deleteCalls (UID (machine s))))
              \<and> (\<forall>err. remote_delete az (deleteCalls (UID (machine s)) ! k) = None
                        \<and> store_rejects data (cleanedTo (Suc k) (machine s)) = Some err \<longrightarrow>
                 fst (Cleanup p az data s) = Return (Inl err)
                 \<and> machine (snd (Cleanup p az data s)) = cleanedTo k (machine s)
                 \<and> issued (trace (snd (Cleanup p az data s)))
                     = issued (trace s) @ take (Suc k) (deleteCalls (UID (machine s))))"
  proof (intro allI impI conjI)
    fix k err
    assume k: "k < 4"
      and before: "\<forall>j<k. remote_delete az (deleteCalls (UID (machine s)) ! j) = None
                     \<and> store_rejects data (cleanedTo (Suc j) (machine s)) = None"
      and fails: "remote_delete az (deleteCalls (UID (machine s)) ! k) = Some err"
    note step = Cleanup_first_failure [OF found k before, of err]
    from step fails
    show "fst (Cleanup p az data s)
            = Return (Inl (Errorf (cleanupFailures ! k) [AStr (Name (machine s)), AErr err]))"
      by (metis fst_conv)
    from step fails
    show "machine (snd (Cleanup p az data s)) = cleanedTo k (machine s)"
      by simp
    from step fails
    show "issued (trace (snd (Cleanup p az data s)))
            = issued (trace s) @ take (Suc k) (deleteCalls (UID (machine s)))"
      by simp
  next
    fix k err
    assume k: "k < 4"
      and before: "\<forall>j<k. remote_delete az (deleteCalls (UID (machine s)) ! j) = None
                     \<and> store_rejects data (cleanedTo (Suc j) (machine s)) = None"
      and rejected: "remote_delete az (deleteCalls (UID (machine s)) ! k) = None
                     \<and> store_rejects data (cleanedTo (Suc k) (machine s)) = Some err"
    note step = Cleanup_first_failure [OF found k before, of err]
    from step rejected
    show "fst (Cleanup p az data s) = Return (Inl err)"
      by (metis fst_conv)
    from step rejected
    show "machine (snd (Cleanup p az data s)) = cleanedTo k (machine s)"
      by simp
    from step rejected
    show "issued (trace (snd (Cleanup p az data s)))
            = issued (trace s) @ take (Suc k) (deleteCalls (UID (machine s)))"
      by simp
  qed
  have fifth: "(\<forall>j<4. remote_delete az (deleteCalls (UID (machine s)) ! j) = None
                    \<and> store_rejects data (cleanedTo (Suc j) (machine s)) = None) \<longrightarrow>
              fst (Cleanup p az data s) = Return (Inr True)
              \<and> machine (snd (Cleanup p az data s)) = cleanedTo 4 (machine s)
              \<and> issued (trace (snd (Cleanup p az data s)))
                  = issued (trace s) @ deleteCalls (UID (machine s))"
    using Cleanup_no_failure [OF found] by blast
  from first second third fourth fifth show ?thesis
    by (intro conjI)
qed

theorem Cleanup_stops_at_first_failure_witness:
  "succeeded (get exampleProvider failingDisksAzure
                (machine (start (exampleMachine [finalizerPublicIP, finalizerNIC, finalizerDisks,
                                                 finalizerVM]))))
   \<and> remote_delete failingDisksAzure (deleteCalls ''uid-1'' ! 0) = None
   \<and> store_rejects exampleData
        (cleanedTo (Suc 0) (exampleMachine [finalizerPublicIP, finalizerNIC, finalizerDisks, finalizerVM]))
       = None
   \<and> remote_delete failingDisksAzure (deleteCalls ''uid-1'' ! 1) = Some (SDKError ''disk is attached'')
   \<and> fst (Cleanup exampleProvider failingDisksAzure exampleData
            (start (exampleMachine [finalizerPublicIP, finalizerNIC, finalizerDisks, finalizerVM])))
       = Return (Inl (Errorf ''failed to remove disks of machine %q: %v''
                        [AStr ''node1'', AErr (SDKError ''disk is attached'')]))
   \<and> Finalizers (machine (snd (Cleanup exampleProvider failingDisksAzure exampleData
            (start (exampleMachine [finalizerPublicIP, finalizerNIC, finalizerDisks, finalizerVM])))))
       = [finalizerPublicIP, finalizerNIC, finalizerDisks]
   \<and> issued (trace (snd (Cleanup exampleProvider failingDisksAzure exampleData
            (start (exampleMachine [finalizerPublicIP, finalizerNIC, finalizerDisks, finalizerVM])))))
       = [DeleteVMsByMachineUID ''uid-1'', DeleteDisksByMachineUID ''uid-1'']
   \<and> fst (Cleanup exampleProvider exampleAzure exampleData
            (snd (Cleanup exampleProvider failingDisksAzure exampleData
               (start (exampleMachine [finalizerPublicIP, finalizerNIC, finalizerDisks, finalizerVM])))))
       = Return (Inr True)
   \<and> Finalizers (machine (snd (Cleanup exampleProvider exampleAzure exampleData
            (snd (Cleanup exampleProvider failingDisksAzure exampleData
               (start (exampleMachine [finalizerPublicIP, finalizerNIC, finalizerDisks, finalizerVM])))))))
       = []
   \<and> issued (trace (snd (Cleanup exampleProvider exampleAzure exampleData
            (snd (Cleanup exampleProvider failingDisksAzure exampleData
               (start (exampleMachine [finalizerPublicIP, finalizerNIC, finalizerDisks, finalizerVM])))))))
       = [DeleteVMsByMachineUID ''uid-1'', DeleteDisksByMachineUID ''uid-1'',
          DeleteVMsByMachineUID ''uid-1'', DeleteDisksByMachineUID ''uid-1'',
          DeleteInterfacesByMachineUID ''uid-1'', DeleteIPAddressesByMachineUID ''uid-1'']"
proof -
  let ?m = "exampleMachine [finalizerPublicIP, finalizerNIC, finalizerDisks, finalizerVM]"
  have found: "succeeded (get exampleProvider failingDisksAzure (machine (start ?m)))"
    by (simp add: failingDisksAzure_def example_eval_defs Let_def)
  have m: "machine (start ?m) = ?m" "UID ?m = ''uid-1''" "Name ?m = ''node1''"
    by (simp_all add: start_def exampleMachine_def)
  have vm: "remote_delete failingDisksAzure (deleteCalls ''uid-1'' ! 0) = None"
    "store_rejects exampleData (cleanedTo (Suc 0) ?m) = None"
    by (simp_all add: failingDisksAzure_def deleteCalls_def exampleData_def)
  have disks: "remote_delete failingDisksAzure (deleteCalls ''uid-1'' ! 1)
                 = Some (SDKError ''disk is attached'')"
    by (simp add: failingDisksAzure_def deleteCalls_def)
  have before: "\<forall>j<1. remote_delete failingDisksAzure (deleteCalls (UID (machine (start ?m))) ! j) = None
                     \<and> store_rejects exampleData (cleanedTo (Suc j) (machine (start ?m))) = None"
    using vm by (simp add: m)
  from Cleanup_stops_at_first_failure [OF found, of exampleData]
  have "\<forall>k<4.
          (\<forall>j<k. remote_delete failingDisksAzure (deleteCalls (UID (machine (start ?m))) ! j) = None
                 \<and> store_rejects exampleData (cleanedTo (Suc j) (machine (start ?m))) = None) \<longrightarrow>
          (\<forall>err. remote_delete failingDisksAzure (deleteCalls (UID (machine (start ?m))) ! k) = Some err \<longrightarrow>
             fst (Cleanup exampleProvider failingDisksAzure exampleData (start ?m))
               = Return (Inl (Errorf (cleanupFailures ! k) [AStr (Name (machine (start ?m))), AErr err]))
             \<and> machine (snd (Cleanup exampleProvider failingDisksAzure exampleData (start ?m)))
                 = cleanedTo k (machine (start ?m))
             \<and> issued (trace (snd (Cleanup exampleProvider failingDisksAzure exampleData (start ?m))))
                 = issued (trace (start ?m)) @ take (Suc k) (deleteCalls (UID (machine (start ?m)))))"
    by blast
  from this [rule_format, of 1 "SDKError ''disk is attached''"] before disks
  have failed: "fst (Cleanup exampleProvider failingDisksAzure exampleData (start ?m))
               = Return (Inl (Errorf (cleanupFailures ! 1) [AStr (Name (machine (start ?m))),
                                                          AErr (SDKError ''disk is attached'')]))"
    "machine (snd (Cleanup exampleProvider failingDisksAzure exampleData (start ?m)))
       = cleanedTo 1 (machine (start ?m))"
    "issued (trace (snd (Cleanup exampleProvider failingDisksAzure exampleData (start ?m))))
       = issued (trace (start ?m)) @ take (Suc 1) (deleteCalls (UID (machine (start ?m))))"
    by (simp_all add: m)
  have again: "fst (Cleanup exampleProvider exampleAzure exampleData
            (snd (Cleanup exampleProvider failingDisksAzure exampleData (start ?m))))
       = Return (Inr True)
   \<and> Finalizers (machine (snd (Cleanup exampleProvider exampleAzure exampleData
            (snd (Cleanup exampleProvider failingDisksAzure exampleData (start ?m))))))
       = []
   \<and> issued (trace (snd (Cleanup exampleProvider exampleAzure exampleData
            (snd (Cleanup exampleProvider failingDisksAzure exampleData (start ?m))))))
       = [DeleteVMsByMachineUID ''uid-1'', DeleteDisksByMachineUID ''uid-1'',
          DeleteVMsByMachineUID ''uid-1'', DeleteDisksByMachineUID ''uid-1'',
          DeleteInterfacesByMachineUID ''uid-1'', DeleteIPAddressesByMachineUID ''uid-1'']"
    by (simp add: Cleanup_def failingDisksAzure_def example_eval_defs Let_def)
  from failed have "fst (Cleanup exampleProvider failingDisksAzure exampleData (start ?m))
       = Return (Inl (Errorf ''failed to remove disks of machine %q: %v''
                        [AStr ''node1'', AErr (SDKError ''disk is attached'')]))"
    "Finalizers (machine (snd (Cleanup exampleProvider failingDisksAzure exampleData (start ?m))))
       = [finalizerPublicIP, finalizerNIC, finalizerDisks]"
    "issued (trace (snd (Cleanup exampleProvider failingDisksAzure exampleData (start ?m))))
       = [DeleteVMsByMachineUID ''uid-1'', DeleteDisksByMachineUID ''uid-1'']"
    by (simp_all add: m cleanupFailures_def cleanedTo_def cleanupOrder_def deleteCalls_def
          start_def exampleMachine_def finalizer_defs)
  with found vm disks again show ?thesis
    by (simp add: m)
qed

text \<open>
  Claim C4, as the spec states it, fails: when the instance is not found, \<open>Cleanup\<close>
  reports done after the removal of the VM finalizer alone. With no VM on the remote
  service and the four finalizers of a created Machine, it reports done and three
  finalizers are left.
\<close>

theorem Cleanup_not_found_leaves_finalizers:
  "get exampleProvider quietAzure
       (exampleMachine [finalizerPublicIP, finalizerNIC, finalizerDisks, finalizerVM])
     = Return (Inl ErrInstanceNotFound)
   \<and> fst (Cleanup exampleProvider quietAzure exampleData
            (start (exampleMachine [finalizerPublicIP, finalizerNIC, finalizerDisks, finalizerVM])))
     = Return (Inr True)
   \<and> Finalizers (machine (snd (Cleanup exampleProvider quietAzure exampleData
            (start (exampleMachine [finalizerPublicIP, finalizerNIC, finalizerDisks, finalizerVM])))))
     = [finalizerPublicIP, finalizerNIC, finalizerDisks]"
  by (simp add: Cleanup_def RemoveFinalizerOnInstanceNotFound_def example_eval_defs Let_def)

text \<open>
  Claim C4, amended. When \<open>Get\<close> reports the sentinel \<open>ErrInstanceNotFound\<close>, \<open>Cleanup\<close>
  does not fail because of it: it issues no delete call, removes the VM finalizer and
  only that one, and reports done; the one error it can return is that of the update of
  the Machine record, and then nothing has changed.
\<close>

theorem Cleanup_tolerates_instance_not_found:
  assumes "get p az (machine s) = Return (Inl ErrInstanceNotFound)"
  shows "(store_rejects data
            ((machine s)\<lparr> Finalizers := RemoveFinalizer (Finalizers (machine s)) finalizerVM \<rparr>) = None
          \<longrightarrow> Cleanup p az data s =
                (Return (Inr True),
                 s\<lparr> machine := (machine s)\<lparr> Finalizers :=
                                  RemoveFinalizer (Finalizers (machine s)) finalizerVM \<rparr>,
                    trace := trace s
                      @ [Committed (RemoveFinalizer (Finalizers (machine s)) finalizerVM)] \<rparr>))
         \<and> (\<forall>err. store_rejects data
                      ((machine s)\<lparr> Finalizers := RemoveFinalizer (Finalizers (machine s)) finalizerVM \<rparr>)
                    = Some err
                  \<longrightarrow> Cleanup p az data s = (Return (Inl err), s))
         \<and> issued (trace (snd (Cleanup p az data s))) = issued (trace s)"
  using Cleanup_instance_not_found [OF assms, of data]
  by (auto simp: issued_append split: option.splits)

theorem Cleanup_tolerates_instance_not_found_witness:
  "get exampleProvider quietAzure (machine (start (exampleMachine [finalizerNIC, finalizerVM])))
     = Return (Inl ErrInstanceNotFound)
   \<and> Cleanup exampleProvider quietAzure exampleData (start (exampleMachine [finalizerNIC, finalizerVM]))
     = (Return (Inr True),
        \<lparr> machine = exampleMachine [finalizerNIC], trace = [Committed [finalizerNIC]] \<rparr>)"
proof -
  have missing: "get exampleProvider quietAzure (machine (start (exampleMachine [finalizerNIC, finalizerVM])))
     = Return (Inl ErrInstanceNotFound)"
    by (simp add: example_eval_defs)
  have accepted: "store_rejects exampleData
          ((machine (start (exampleMachine [finalizerNIC, finalizerVM])))
             \<lparr> Finalizers := RemoveFinalizer
                 (Finalizers (machine (start (exampleMachine [finalizerNIC, finalizerVM])))) finalizerVM \<rparr>)
        = None"
    by (simp add: exampleData_def)
  from Cleanup_tolerates_instance_not_found [OF missing, of exampleData] accepted missing
  show ?thesis
    by (simp add: start_def exampleMachine_def RemoveFinalizer_def finalizer_defs)
qed

section \<open>MigrateUID\<close>


lemma follows_calc: "(\<And>v. r = Inr v \<Longrightarrow> V v) \<Longrightarrow> follows [] V (calc r)"
  by (simp add: follows_def calc_def)





lemma follows_weaken: "follows plan V f \<Longrightarrow> (\<And>v. V v \<Longrightarrow> W v) \<Longrightarrow> follows plan W f"
  by (simp add: follows_def)



lemma migrateDisks_nil_tags_panic:
  "disk_Tags disk = None \<Longrightarrow> migrateDisks az config newUID (disk # disks) s = (Panic, s)"
  by simp

lemma migrateDisks_nil_name_panic:
  "disk_Name disk = None \<Longrightarrow> fst (migrateDisks az config newUID (disk # disks) s) = Panic"
  by (simp split: option.splits)













lemma upToFailure_is_beginning: "\<exists>n. upToFailure az plan = take n plan"
proof (induction plan)
  case Nil
  show ?case by simp
next
  case (Cons c plan)
  then obtain n where n: "upToFailure az plan = take n plan" by blast
  show ?case
  proof (cases "failure az c = None")
    case True
    with n have "upToFailure az (c # plan) = take (Suc n) (c # plan)" by simp
    then show ?thesis by blast
  next
    case False
    then have "upToFailure az (c # plan) = take (Suc 0) (c # plan)" by auto
    then show ?thesis by blast
  qed
qed



















text \<open>Without a configuration \<open>MigrateUID\<close> returns a terminal error and issues no call.\<close>

lemma MigrateUID_invalid_configuration:
  "getConfig p (ProviderSpec (Spec (machine s))) = Inl err \<Longrightarrow>
   MigrateUID p az newUID s
     = (Return (Inl (TerminalError InvalidConfigurationMachineError
                       (Sprintf ''failed to parse MachineSpec, due to %v'' [AErr err]))), s)"
  by (simp add: MigrateUID_def)




end
